theory Spec2Isabelle
  imports Complex_Main "HOL-Library.Word"
begin

unbundle bit_operations_syntax

section \<open>The workflow executor of the native scheduler\<close>

text \<open>
  A shallow embedding of \<^verbatim>\<open>scheduler/executor/workflow_executor.go\<close>. Every method of
  \<^verbatim>\<open>workflowExecutor\<close> becomes a function that takes the executor's mutable state (the
  record \<open>world\<close>) and returns it updated, next to the Go return value. A Go \<^verbatim>\<open>error\<close>
  result is an \<open>error option\<close> (\<open>None\<close> is \<^verbatim>\<open>nil\<close>). Collaborators that the executor reaches
  through interfaces or helper functions outside this file (the admin client, the database
  repositories, the cron wrapper, the snapshot codec, the identifier helpers) are the
  fields of the record \<open>env\<close>: the theorems hold for every behaviour of theirs. Log lines are
  not modelled.
\<close>

subsection \<open>Time\<close>

text \<open>
  A \<^verbatim>\<open>time.Time\<close> is the number of nanoseconds since the zero instant (January 1 of year 1,
  00:00:00 UTC), which may be negative; a \<^verbatim>\<open>time.Duration\<close> is a number of nanoseconds.
\<close>

type_synonym instant = int

type_synonym Duration = int

definition IsZero :: "instant \<Rightarrow> bool" where
  "IsZero t = (t = 0)"

definition After :: "instant \<Rightarrow> instant \<Rightarrow> bool" where
  "After t u = (u < t)"

definition Second :: Duration where
  "Second = 1000000000"

definition executorSleepTime :: int where
  "executorSleepTime = 30"

definition snapshotWriterSleepTime :: int where
  "snapshotWriterSleepTime = 30"

definition backOffSleepTime :: int where
  "backOffSleepTime = 60"

definition snapShotVersion :: int where
  "snapShotVersion = 1"

record Timestamp =
  Seconds :: int
  Nanos :: int

definition unixToInternal :: int where
  "unixToInternal = 62135596800"

definition timestamppb_New :: "instant \<Rightarrow> Timestamp" where
  "timestamppb_New t = \<lparr>Seconds = t div Second - unixToInternal, Nanos = t mod Second\<rparr>"

subsection \<open>Errors and gRPC status codes\<close>

datatype Code =
  OK | Canceled | Unknown | InvalidArgument | DeadlineExceeded | NotFound | AlreadyExists
  | PermissionDenied | ResourceExhausted | FailedPrecondition | Aborted | OutOfRange
  | Unimplemented | Internal | Unavailable | DataLoss | Unauthenticated

text \<open>
  A non-nil Go error: one that carries a gRPC status, the sentinel \<^verbatim>\<open>wait.ErrWaitTimeout\<close>,
  or any other error, known by its message.
\<close>

datatype error = StatusError Code string | ErrWaitTimeout | PlainError string

fun status_Code :: "error option \<Rightarrow> Code" where
  "status_Code None = OK"
| "status_Code (Some (StatusError c m)) = c"
| "status_Code (Some e) = Unknown"

fun Code_String :: "Code \<Rightarrow> string" where
  "Code_String OK = ''OK''"
| "Code_String Canceled = ''Canceled''"
| "Code_String Unknown = ''Unknown''"
| "Code_String InvalidArgument = ''InvalidArgument''"
| "Code_String DeadlineExceeded = ''DeadlineExceeded''"
| "Code_String NotFound = ''NotFound''"
| "Code_String AlreadyExists = ''AlreadyExists''"
| "Code_String PermissionDenied = ''PermissionDenied''"
| "Code_String ResourceExhausted = ''ResourceExhausted''"
| "Code_String FailedPrecondition = ''FailedPrecondition''"
| "Code_String Aborted = ''Aborted''"
| "Code_String OutOfRange = ''OutOfRange''"
| "Code_String Unimplemented = ''Unimplemented''"
| "Code_String Internal = ''Internal''"
| "Code_String Unavailable = ''Unavailable''"
| "Code_String DataLoss = ''DataLoss''"
| "Code_String Unauthenticated = ''Unauthenticated''"

fun Error_msg :: "error \<Rightarrow> string" where
  "Error_msg (StatusError c m) = ''rpc error: code = '' @ Code_String c @ '' desc = '' @ m"
| "Error_msg ErrWaitTimeout = ''timed out waiting for the condition''"
| "Error_msg (PlainError m) = m"

text \<open>\<^verbatim>\<open>fmt.Errorf(prefix + "%v", err)\<close>: a new plain error whose message embeds the cause.\<close>

definition Errorf :: "string \<Rightarrow> error \<Rightarrow> error" where
  "Errorf prefix err = PlainError (prefix @ Error_msg err)"

subsection \<open>Schedules and execution requests\<close>

datatype FixedRateUnit = MINUTE | HOUR | DAY

text \<open>
  Modelled from the spec: the declaration of \<^verbatim>\<open>models.SchedulableEntity\<close> is not among the
  sources. Section 3 of the specification gives a schedule the launch-plan identity, a cron
  expression or a fixed rate, the kickoff-time input argument, an \<open>active\<close> flag and an
  \<open>updated_at\<close> timestamp. The source reads the flag through a pointer (\<^verbatim>\<open>*s.Active\<close>);
  the flag of the specification is always present, so it is a \<open>bool\<close> here.
\<close>

record SchedulableEntity =
  s_Project :: string
  s_Domain :: string
  s_Name :: string
  s_Version :: string
  CronExpression :: string
  FixedRateValue :: nat
  FixedRateUnit :: FixedRateUnit
  KickoffTimeInputArg :: string
  Active :: bool
  UpdatedAt :: instant

datatype ResourceType = UNSPECIFIED | TASK | WORKFLOW | LAUNCH_PLAN | DATASET

record Identifier =
  id_ResourceType :: ResourceType
  id_Project :: string
  id_Domain :: string
  id_Name :: string
  id_Version :: string

datatype Primitive = Primitive_Datetime Timestamp

datatype Scalar = Scalar_Primitive Primitive

datatype Literal = Literal_Scalar Scalar

datatype ExecutionMode = MANUAL | SCHEDULED | SYSTEM

record ExecutionMetadata =
  Mode :: ExecutionMode
  ScheduledAt :: Timestamp

record ExecutionSpec =
  LaunchPlan :: Identifier
  Metadata :: ExecutionMetadata

text \<open>The literal map of a request is built with one key, so it is an association list.\<close>

record ExecutionCreateRequest =
  req_Project :: string
  req_Domain :: string
  req_Name :: string
  Spec :: ExecutionSpec
  Inputs :: "(string \<times> Literal) list"

subsection \<open>Execution identifiers\<close>

text \<open>
  \<^verbatim>\<open>GetExecutionIdentifier\<close> returns a \<^verbatim>\<open>uuid.UUID\<close>, an array of 16 bytes: a 128-bit word
  whose most significant byte is the first byte of the array. \<^verbatim>\<open>String()\<close> prints it in
  lower-case hexadecimal, grouped 8-4-4-4-12.
\<close>

type_synonym UUID = "128 word"

definition hexdigit :: "nat \<Rightarrow> char" where
  "hexdigit n = ''0123456789abcdef'' ! (n mod 16)"

definition hex_byte :: "8 word \<Rightarrow> string" where
  "hex_byte b = [hexdigit (unat (drop_bit 4 b)), hexdigit (unat (take_bit 4 b))]"

definition uuid_bytes :: "UUID \<Rightarrow> 8 word list" where
  "uuid_bytes u = map (\<lambda>i. ucast (drop_bit (8 * (15 - i)) u)) [0..<16]"

definition UUID_String :: "UUID \<Rightarrow> string" where
  "UUID_String u =
     (let h = concat (map hex_byte (uuid_bytes u))
      in take 8 h @ ''-'' @ take 4 (drop 8 h) @ ''-'' @ take 4 (drop 12 h) @ ''-''
         @ take 4 (drop 16 h) @ ''-'' @ drop 20 h)"

text \<open>\<^verbatim>\<open>strings.ReplaceAll(x, "-", "")\<close>: every dash is removed.\<close>

definition strings_ReplaceAll_dash :: "string \<Rightarrow> string" where
  "strings_ReplaceAll_dash x = filter (\<lambda>c. c \<noteq> CHR ''-'') x"

subsection \<open>Metrics and the executor state\<close>

record schedulerMetrics =
  FailedExecutionCounter :: nat
  CheckPointPanicCounter :: nat
  CheckPointSaveErrCounter :: nat
  CheckPointCreationErrCounter :: nat
  CatchupErrCounter :: nat
  ScheduleRegistrationFailure :: nat
  ScheduleReadFailure :: nat

text \<open>
  The state an executor run reads and writes:
  \<^item> \<open>snapshot\<close>: the watermark table \<^verbatim>\<open>SnapshotV1.LastTimes\<close>, a Go map from schedule name
    to the instant last fired;
  \<^item> \<open>metrics\<close>: the Prometheus counters;
  \<^item> \<open>adminRequests\<close>: the requests submitted to the admin service so far, oldest first;
  \<^item> \<open>rateLimiterTakes\<close>: how many tokens were taken from the rate limiter;
  \<^item> \<open>writeSnapshotCalls\<close>: how many times the encoder \<^verbatim>\<open>WriteSnapshot\<close> was run;
  \<^item> \<open>snapshotRows\<close>: the rows of the snapshot table of the database, oldest first;
  \<^item> \<open>createSnapShotCalls\<close>: every blob handed to \<^verbatim>\<open>CreateSnapShot\<close>, stored or not;
  \<^item> \<open>jobsMap\<close>: the cron registry, from schedule name to the registered schedule;
  \<^item> \<open>sleeps\<close>: the durations slept so far, oldest first;
  \<^item> \<open>getAllCalls\<close>: how many times the schedule table was read;
  \<^item> \<open>checkpointerSpawned\<close>: whether the checkpointer goroutine was started.
\<close>

record world =
  snapshot :: "string \<rightharpoonup> instant"
  metrics :: schedulerMetrics
  adminRequests :: "ExecutionCreateRequest list"
  rateLimiterTakes :: nat
  writeSnapshotCalls :: nat
  snapshotRows :: "8 word list list"
  createSnapShotCalls :: "8 word list list"
  jobsMap :: "string \<rightharpoonup> SchedulableEntity"
  sleeps :: "Duration list"
  getAllCalls :: nat
  checkpointerSpawned :: bool

text \<open>A \<^verbatim>\<open>context.Context\<close>, as far as the executor can observe it: cancelled or not.\<close>

record Context =
  Done :: bool
  GoroutineLabel :: "string option"

text \<open>
  The collaborators. Each is a function of what it is called with and of the history it
  can depend on, so that it may answer differently from one call to the next:
  \<^item> \<open>GetScheduleName\<close>, \<open>GetExecutionIdentifier\<close>: helpers of the package;
  \<^item> \<open>GetCatchUpTimes\<close>, \<open>Register_err\<close>: the cron wrapper;
  \<^item> \<open>CreateExecution\<close>: the admin client, given the requests it received before;
  \<^item> \<open>WriteSnapshot\<close>: the codec's encoder, given its version, the number of earlier runs
    and the table, and giving the bytes it wrote to the buffer and its error;
    \<open>ReadSnapshot\<close>: its decoder;
  \<^item> \<open>CreateSnapShot_err\<close>: whether the database refuses a blob, given the blobs it was
    handed before; \<open>GetLatestSnapShot\<close>: the newest row, given the rows; \<open>GetAll\<close>: the
    schedule table, given the number of earlier reads;
  \<^item> \<open>Now\<close>: the clock.
\<close>

record env =
  GetScheduleName :: "SchedulableEntity \<Rightarrow> string"
  GetExecutionIdentifier :: "Identifier \<Rightarrow> instant \<Rightarrow> error + UUID"
  GetCatchUpTimes :: "SchedulableEntity \<Rightarrow> instant \<Rightarrow> instant \<Rightarrow> error + instant list"
  Register_err :: "Context \<Rightarrow> SchedulableEntity \<Rightarrow> world \<Rightarrow> error option"
  CreateExecution :: "ExecutionCreateRequest list \<Rightarrow> ExecutionCreateRequest \<Rightarrow> error option"
  WriteSnapshot :: "int \<Rightarrow> nat \<Rightarrow> (string \<rightharpoonup> instant) \<Rightarrow> 8 word list \<times> error option"
  ReadSnapshot :: "int \<Rightarrow> 8 word list \<Rightarrow> error + (string \<rightharpoonup> instant)"
  CreateSnapShot_err :: "Context \<Rightarrow> 8 word list list \<Rightarrow> 8 word list \<Rightarrow> error option"
  GetLatestSnapShot :: "Context \<Rightarrow> 8 word list list \<Rightarrow> error + 8 word list"
  GetAll :: "Context \<Rightarrow> nat \<Rightarrow> SchedulableEntity list \<times> error option"
  Now :: "world \<Rightarrow> instant"

subsection \<open>The watermark table\<close>

text \<open>
  Modelled from the spec: the methods of \<^verbatim>\<open>SnapshotV1\<close> are not among the sources. Section
  4.B gives the table the operations \<open>Get(name)\<close>, which returns the instant or the zero
  instant, \<open>Update(name, instant)\<close>, last writer wins with no monotonicity guard, and
  \<open>IsEmpty()\<close>.
\<close>

definition GetLastExecutionTime :: "string \<Rightarrow> world \<Rightarrow> instant" where
  "GetLastExecutionTime key w = (case snapshot w key of None \<Rightarrow> 0 | Some t \<Rightarrow> t)"

definition UpdateLastExecutionTime :: "string \<Rightarrow> instant \<Rightarrow> world \<Rightarrow> world" where
  "UpdateLastExecutionTime key t w = w\<lparr>snapshot := (snapshot w)(key \<mapsto> t)\<rparr>"

definition IsEmpty :: "world \<Rightarrow> bool" where
  "IsEmpty w = (snapshot w = Map.empty)"

definition rateLimiter_Take :: "world \<Rightarrow> world" where
  "rateLimiter_Take w = w\<lparr>rateLimiterTakes := rateLimiterTakes w + 1\<rparr>"

definition time_Sleep :: "Duration \<Rightarrow> world \<Rightarrow> world" where
  "time_Sleep d w = w\<lparr>sleeps := sleeps w @ [d]\<rparr>"

subsection \<open>Bounded retry\<close>

text \<open>
  The retry helpers of the Kubernetes client libraries, which \<^verbatim>\<open>fire\<close> calls. A
  \<^verbatim>\<open>wait.Backoff\<close> has a duration, a factor and a number of steps; \<^verbatim>\<open>fire\<close> leaves its
  jitter and cap at zero, and their branches are left out. The factor is a \<^verbatim>\<open>float64\<close> in
  the source and a rational here; the product is exact for the values \<^verbatim>\<open>fire\<close> uses.
\<close>

record Backoff =
  Duration :: Duration
  Factor :: rat
  Steps :: int

definition trunc :: "rat \<Rightarrow> int" where
  "trunc r = (if 0 \<le> r then \<lfloor>r\<rfloor> else \<lceil>r\<rceil>)"

definition Backoff_Step :: "Backoff \<Rightarrow> Duration \<times> Backoff" where
  "Backoff_Step b =
     (if Steps b < 1 then (Duration b, b)
      else
        let b1 = b\<lparr>Steps := Steps b - 1\<rparr>;
            duration = Duration b1;
            b2 = (if Factor b1 \<noteq> 0
                  then b1\<lparr>Duration := trunc (of_int (Duration b1) * Factor b1)\<rparr> else b1)
        in (duration, b2))"

text \<open>
  \<^verbatim>\<open>wait.ExponentialBackoff\<close>: the condition runs while steps remain; it stops on an error
  or on \<open>ok\<close>, and sleeps between two runs. The state \<open>'s\<close> is whatever the condition
  mutates; \<open>slp\<close> is the effect of sleeping on it.
\<close>

function ExponentialBackoff ::
  "(Duration \<Rightarrow> 's \<Rightarrow> 's) \<Rightarrow> Backoff \<Rightarrow> ('s \<Rightarrow> (bool \<times> error option) \<times> 's) \<Rightarrow> 's
     \<Rightarrow> error option \<times> 's" where
  "ExponentialBackoff slp backoff condition s =
     (if 0 < Steps backoff then
        (case condition s of
           ((ok, err), s1) \<Rightarrow>
             if err \<noteq> None \<or> ok then (err, s1)
             else if Steps backoff = 1 then (Some ErrWaitTimeout, s1)
             else ExponentialBackoff slp (snd (Backoff_Step backoff)) condition
                    (slp (fst (Backoff_Step backoff)) s1))
      else (Some ErrWaitTimeout, s))"
  by pat_completeness auto
termination
  by (relation "measure (\<lambda>(slp, backoff, condition, s). nat (Steps backoff))")
    (auto simp: Backoff_Step_def Let_def)

declare ExponentialBackoff.simps [simp del]

text \<open>
  \<^verbatim>\<open>retry.OnError\<close>: \<open>fn\<close> is run under the backoff; a nil result ends the retry, a
  retriable error is remembered and retried, any other error ends the retry and is
  returned. When the steps run out the last retriable error is returned. The state of the
  backoff loop is the remembered error paired with the executor state.
\<close>

definition OnError_condition ::
  "(error option \<Rightarrow> world \<Rightarrow> bool \<times> world) \<Rightarrow> (world \<Rightarrow> error option \<times> world)
     \<Rightarrow> error option \<times> world \<Rightarrow> (bool \<times> error option) \<times> (error option \<times> world)" where
  "OnError_condition retriable fn s =
     (case s of
        (lastErr, w) \<Rightarrow>
          (case fn w of
             (None, w1) \<Rightarrow> ((True, None), (lastErr, w1))
           | (Some e, w1) \<Rightarrow>
               (case retriable (Some e) w1 of
                  (True, w2) \<Rightarrow> ((False, None), (Some e, w2))
                | (False, w2) \<Rightarrow> ((False, Some e), (lastErr, w2)))))"

definition retry_OnError ::
  "Backoff \<Rightarrow> (error option \<Rightarrow> world \<Rightarrow> bool \<times> world) \<Rightarrow> (world \<Rightarrow> error option \<times> world)
     \<Rightarrow> world \<Rightarrow> error option \<times> world" where
  "retry_OnError backoff retriable fn w =
     (case ExponentialBackoff (\<lambda>d (l, w'). (l, time_Sleep d w')) backoff
             (OnError_condition retriable fn) (None, w) of
        (err, (lastErr, w')) \<Rightarrow> (if err = Some ErrWaitTimeout then lastErr else err, w'))"

subsection \<open>fire\<close>

text \<open>The retry predicate of \<^verbatim>\<open>fire\<close> (the first closure handed to \<^verbatim>\<open>retry.OnError\<close>).\<close>

definition fire_retriable :: "error option \<Rightarrow> world \<Rightarrow> bool \<times> world" where
  "fire_retriable err w =
     (if err = None then (False, w)
      else if status_Code err = AlreadyExists then (False, w)
      else (True, w\<lparr>metrics := (metrics w)\<lparr>FailedExecutionCounter :=
                      FailedExecutionCounter (metrics w) + 1\<rparr>\<rparr>))"

text \<open>The submission (the second closure): one call of the admin client.\<close>

definition fire_submit :: "env \<Rightarrow> ExecutionCreateRequest \<Rightarrow> world \<Rightarrow> error option \<times> world" where
  "fire_submit env executionRequest w =
     (CreateExecution env (adminRequests w) executionRequest,
      w\<lparr>adminRequests := adminRequests w @ [executionRequest]\<rparr>)"

definition executionRequest_of :: "UUID \<Rightarrow> instant \<Rightarrow> SchedulableEntity \<Rightarrow> ExecutionCreateRequest" where
  "executionRequest_of executionIdentifier scheduledTime s =
     \<lparr>req_Project = s_Project s,
      req_Domain = s_Domain s,
      req_Name = ''f'' @ take 19 (strings_ReplaceAll_dash (UUID_String executionIdentifier)),
      Spec = \<lparr>LaunchPlan = \<lparr>id_ResourceType = LAUNCH_PLAN, id_Project = s_Project s,
                             id_Domain = s_Domain s, id_Name = s_Name s,
                             id_Version = s_Version s\<rparr>,
              Metadata = \<lparr>Mode = SCHEDULED, ScheduledAt = timestamppb_New scheduledTime\<rparr>\<rparr>,
      Inputs = [(KickoffTimeInputArg s,
                 Literal_Scalar (Scalar_Primitive (Primitive_Datetime
                   (timestamppb_New scheduledTime))))]\<rparr>"

text \<open>The identity of the launch plan, as \<^verbatim>\<open>fire\<close> hands it to \<^verbatim>\<open>GetExecutionIdentifier\<close>.\<close>

definition identifier_of :: "SchedulableEntity \<Rightarrow> Identifier" where
  "identifier_of s =
     \<lparr>id_ResourceType = UNSPECIFIED, id_Project = s_Project s, id_Domain = s_Domain s,
      id_Name = s_Name s, id_Version = s_Version s\<rparr>"

definition fire_opts :: Backoff where
  "fire_opts = \<lparr>Duration = 0, Factor = 1, Steps = 30\<rparr>"

definition fire :: "env \<Rightarrow> instant \<Rightarrow> SchedulableEntity \<Rightarrow> world \<Rightarrow> error option \<times> world" where
  "fire env scheduledTime s w =
     (case GetExecutionIdentifier env (identifier_of s) scheduledTime of
        Inl err \<Rightarrow> (Some err, w)
      | Inr executionIdentifier \<Rightarrow>
          if \<not> Active s then (None, w)
          else
            (case retry_OnError fire_opts fire_retriable
                    (fire_submit env (executionRequest_of executionIdentifier scheduledTime s)) w of
               (err, w') \<Rightarrow> (None, w')))"

text \<open>
  The answer of the admin client to the attempt number \<open>i\<close> (from 0) of a retry that
  starts in \<open>w\<close>, and the answers that the retry predicate sends to another attempt.
\<close>

abbreviation submitted :: "env \<Rightarrow> world \<Rightarrow> ExecutionCreateRequest \<Rightarrow> nat \<Rightarrow> error option" where
  "submitted env w req i \<equiv> CreateExecution env (adminRequests w @ replicate i req) req"

abbreviation retried :: "error option \<Rightarrow> bool" where
  "retried a \<equiv> a \<noteq> None \<and> status_Code a \<noteq> AlreadyExists"

subsection \<open>Catch-up\<close>

text \<open>The loop of \<^verbatim>\<open>CatchUpSingleSchedule\<close> over the enumerated instants.\<close>

fun catchUpLoop ::
  "env \<Rightarrow> SchedulableEntity \<Rightarrow> string \<Rightarrow> instant list \<Rightarrow> world \<Rightarrow> error option \<times> world" where
  "catchUpLoop env s nameOfSchedule [] w = (None, w)"
| "catchUpLoop env s nameOfSchedule (catchupTime # catchUpTimes) w =
     (case fire env catchupTime s (rateLimiter_Take w) of
        (Some err, w') \<Rightarrow>
          (Some err, w'\<lparr>metrics := (metrics w')\<lparr>CatchupErrCounter :=
                           CatchupErrCounter (metrics w') + 1\<rparr>\<rparr>)
      | (None, w') \<Rightarrow>
          catchUpLoop env s nameOfSchedule catchUpTimes
            (UpdateLastExecutionTime nameOfSchedule catchupTime w'))"

definition CatchUpSingleSchedule ::
  "env \<Rightarrow> SchedulableEntity \<Rightarrow> instant \<Rightarrow> instant \<Rightarrow> world \<Rightarrow> error option \<times> world" where
  "CatchUpSingleSchedule env s fromTime toTime w =
     (case GetCatchUpTimes env s fromTime toTime of
        Inl err \<Rightarrow> (Some err, w)
      | Inr catchUpTimes \<Rightarrow> catchUpLoop env s (GetScheduleName env s) catchUpTimes w)"

text \<open>
  The lower bound \<^verbatim>\<open>fromTime\<close> that \<^verbatim>\<open>CatchUpAllSchedules\<close> computes for an active schedule
  (lines 99 to 105).
\<close>

definition catchUpFromTime :: "env \<Rightarrow> SchedulableEntity \<Rightarrow> world \<Rightarrow> instant" where
  "catchUpFromTime env s w =
     (let fromTime = UpdatedAt s;
          nameOfSchedule = GetScheduleName env s;
          lastT = GetLastExecutionTime nameOfSchedule w
      in if \<not> IsZero lastT \<and> After lastT (UpdatedAt s) then lastT else fromTime)"

fun CatchUpAllSchedules ::
  "env \<Rightarrow> SchedulableEntity list \<Rightarrow> instant \<Rightarrow> world \<Rightarrow> error option \<times> world" where
  "CatchUpAllSchedules env [] toTime w = (None, w)"
| "CatchUpAllSchedules env (s # schedules) toTime w =
     (if \<not> Active s then CatchUpAllSchedules env schedules toTime w
      else
        (case CatchUpSingleSchedule env s (catchUpFromTime env s w) toTime w of
           (Some err, w') \<Rightarrow> (Some err, w')
         | (None, w') \<Rightarrow> CatchUpAllSchedules env schedules toTime w'))"

subsection \<open>Live ticks and the cron registry\<close>

text \<open>
  The callback \<^verbatim>\<open>funcRef\<close> that \<^verbatim>\<open>Run\<close> registers for a schedule: what a tick of the cron
  scheduler for \<open>schedule\<close> at \<open>scheduleTime\<close> does.
\<close>

definition funcRef :: "env \<Rightarrow> SchedulableEntity \<Rightarrow> instant \<Rightarrow> world \<Rightarrow> world" where
  "funcRef env schedule scheduleTime w =
     (if \<not> Active schedule then w
      else
        (case fire env scheduleTime schedule (rateLimiter_Take w) of
           (Some err, w') \<Rightarrow> w'
         | (None, w') \<Rightarrow>
             UpdateLastExecutionTime (GetScheduleName env schedule) scheduleTime w'))"

text \<open>
  Modelled from the spec: the cron wrapper \<^verbatim>\<open>GoCron\<close> is not among the sources. Section 4.F
  gives it a mapping from schedule name to the registered job: \<open>Register\<close> replaces the
  handle of that name, \<open>Deregister\<close> removes it if present. The callback of a job is
  \<open>funcRef\<close> of the registered schedule, so the handle is the schedule. When \<open>Register\<close>
  fails is left to \<open>Register_err\<close>; a failed registration changes nothing.
\<close>

definition DeRegister :: "env \<Rightarrow> Context \<Rightarrow> SchedulableEntity \<Rightarrow> world \<Rightarrow> world" where
  "DeRegister env ctx s w = w\<lparr>jobsMap := (jobsMap w)(GetScheduleName env s := None)\<rparr>"

definition Register :: "env \<Rightarrow> Context \<Rightarrow> SchedulableEntity \<Rightarrow> world \<Rightarrow> error option \<times> world" where
  "Register env ctx s w =
     (case Register_err env ctx s w of
        Some err \<Rightarrow> (Some err, w)
      | None \<Rightarrow> (None, w\<lparr>jobsMap := (jobsMap w)(GetScheduleName env s \<mapsto> s)\<rparr>))"

subsection \<open>The control loop\<close>

text \<open>The body of the inner loop of \<^verbatim>\<open>Run\<close>: one schedule is registered or deregistered.\<close>

definition reconcileSchedule :: "env \<Rightarrow> Context \<Rightarrow> SchedulableEntity \<Rightarrow> world \<Rightarrow> world" where
  "reconcileSchedule env ctx s w =
     (if \<not> Active s then DeRegister env ctx s w
      else
        (case Register env ctx s w of
           (Some err, w') \<Rightarrow>
             w'\<lparr>metrics := (metrics w')\<lparr>ScheduleRegistrationFailure :=
                            ScheduleRegistrationFailure (metrics w') + 1\<rparr>\<rparr>
         | (None, w') \<Rightarrow> w'))"

text \<open>
  One pass of the outer loop: every schedule read last is reconciled, the loop sleeps, and
  the schedules are read again; a failed read sleeps the back-off time on top.
\<close>

definition Run_iteration ::
  "env \<Rightarrow> Context \<Rightarrow> SchedulableEntity list \<times> world \<Rightarrow> SchedulableEntity list \<times> world" where
  "Run_iteration env ctx sw =
     (case sw of
        (schedules, w) \<Rightarrow>
          let w1 = fold (reconcileSchedule env ctx) schedules w;
              w2 = time_Sleep (executorSleepTime * Second) w1;
              w3 = w2\<lparr>getAllCalls := getAllCalls w2 + 1\<rparr>
          in (case GetAll env ctx (getAllCalls w2) of
                (schedules', None) \<Rightarrow> (schedules', w3)
              | (schedules', Some err) \<Rightarrow>
                  (schedules',
                   time_Sleep (backOffSleepTime * Second)
                     (w3\<lparr>metrics := (metrics w3)\<lparr>ScheduleReadFailure :=
                                     ScheduleReadFailure (metrics w3) + 1\<rparr>\<rparr>))))"

text \<open>
  The outer loop \<^verbatim>\<open>for true { ... }\<close> has no \<^verbatim>\<open>break\<close> and no \<^verbatim>\<open>return\<close>: a run of it that
  does not come back is the value \<open>None\<close>.
\<close>

partial_function (option) Run_loop ::
  "env \<Rightarrow> Context \<Rightarrow> SchedulableEntity list \<times> world \<Rightarrow> (error option \<times> world) option" where
  "Run_loop env ctx sw = Run_loop env ctx (Run_iteration env ctx sw)"

text \<open>
  \<^verbatim>\<open>Run\<close>. Starting the checkpointer goroutine is recorded in \<open>checkpointerSpawned\<close>; what
  the goroutine does is \<open>CheckPointState\<close> below, and its interleaving with the control loop
  is not modelled.
\<close>

definition Run :: "env \<Rightarrow> Context \<Rightarrow> world \<Rightarrow> (error option \<times> world) option" where
  "Run env ctx w =
     (let w1 = w\<lparr>getAllCalls := getAllCalls w + 1\<rparr>
      in case GetAll env ctx (getAllCalls w) of
           (schedules, Some err) \<Rightarrow>
             Some (Some (Errorf
               ''unable to run the workflow executor after reading the schedules due to '' err), w1)
         | (schedules, None) \<Rightarrow>
             (case CatchUpAllSchedules env schedules (Now env w1) w1 of
                (Some err, w2) \<Rightarrow>
                  Some (Some (Errorf ''unable to catch up on the schedules due to '' err), w2)
              | (None, w2) \<Rightarrow>
                  Run_loop env ctx (schedules, w2\<lparr>checkpointerSpawned := True\<rparr>)))"

subsection \<open>The checkpointer\<close>

text \<open>
  Modelled from the spec: the snapshot repository is not among the sources. Section 4.A
  gives it \<open>CreateSnapshot(blob)\<close>, which appends a row; a refused blob leaves the table as
  it was.
\<close>

definition CreateSnapShot :: "env \<Rightarrow> Context \<Rightarrow> 8 word list \<Rightarrow> world \<Rightarrow> error option \<times> world" where
  "CreateSnapShot env ctx blob w =
     (let w1 = w\<lparr>createSnapShotCalls := createSnapShotCalls w @ [blob]\<rparr>
      in case CreateSnapShot_err env ctx (createSnapShotCalls w) blob of
           Some err \<Rightarrow> (Some err, w1)
         | None \<Rightarrow> (None, w1\<lparr>snapshotRows := snapshotRows w1 @ [blob]\<rparr>))"

text \<open>One pass of the loop of \<^verbatim>\<open>CheckPointState\<close>; \<open>f\<close> is the buffer after the encoder ran.\<close>

definition CheckPointState_iteration :: "env \<Rightarrow> Context \<Rightarrow> world \<Rightarrow> world" where
  "CheckPointState_iteration env ctx w =
     time_Sleep (snapshotWriterSleepTime * Second)
       (if \<not> IsEmpty w then
          (case WriteSnapshot env snapShotVersion (writeSnapshotCalls w) (snapshot w) of
             (f, err) \<Rightarrow>
               let w1 = w\<lparr>writeSnapshotCalls := writeSnapshotCalls w + 1\<rparr>;
                   w2 = (if err \<noteq> None
                         then w1\<lparr>metrics := (metrics w1)\<lparr>CheckPointCreationErrCounter :=
                                    CheckPointCreationErrCounter (metrics w1) + 1\<rparr>\<rparr>
                         else w1)
               in (case CreateSnapShot env ctx f w2 of
                     (Some err', w3) \<Rightarrow>
                       w3\<lparr>metrics := (metrics w3)\<lparr>CheckPointSaveErrCounter :=
                                      CheckPointSaveErrCounter (metrics w3) + 1\<rparr>\<rparr>
                   | (None, w3) \<Rightarrow> w3))
        else w)"

text \<open>
  The loop \<^verbatim>\<open>for true { ... }\<close> of \<^verbatim>\<open>CheckPointState\<close>, run for a number of passes. A run ends
  as \<open>Exited\<close> when the loop is left, and as \<open>OutOfFuel\<close>, with the state reached, when the
  passes it was given are used up and the loop is about to start another one. The body has
  no \<^verbatim>\<open>break\<close> and no \<^verbatim>\<open>return\<close>, so every pass, whatever failed in it, is followed by the
  next one.
\<close>

datatype loop_outcome = Exited world | OutOfFuel world

fun CheckPointState :: "nat \<Rightarrow> env \<Rightarrow> Context \<Rightarrow> world \<Rightarrow> loop_outcome" where
  "CheckPointState 0 env ctx w = OutOfFuel w"
| "CheckPointState (Suc fuel) env ctx w =
     CheckPointState fuel env ctx (CheckPointState_iteration env ctx w)"

subsection \<open>Start-up\<close>

definition readSnapShot :: "env \<Rightarrow> Context \<Rightarrow> 8 word list list \<Rightarrow> int \<Rightarrow> (string \<rightharpoonup> instant)" where
  "readSnapShot env ctx rows version =
     (case GetLatestSnapShot env ctx rows of
        Inl err \<Rightarrow> Map.empty
      | Inr scheduleEntitiesSnapShot \<Rightarrow>
          (case ReadSnapshot env version scheduleEntitiesSnapShot of
             Inl err \<Rightarrow> Map.empty
           | Inr snapshot' \<Rightarrow> snapshot'))"

text \<open>
  Modelled from the spec: the codec \<^verbatim>\<open>VersionedSnapshot\<close> is not among the sources. By
  sections 4.A and 6 a blob is a header that identifies the version, followed by an
  encoding of the table, and a reader that sees a version it does not understand returns an
  empty table with no error. How the header and the table are laid out in bytes is left
  open: \<open>decodeHeader\<close> and \<open>decodeTable\<close> stand for the two parsers.
\<close>

definition VersionedSnapshot_ReadSnapshot ::
  "(8 word list \<Rightarrow> error + int \<times> 8 word list) \<Rightarrow> (8 word list \<Rightarrow> error + (string \<rightharpoonup> instant))
     \<Rightarrow> int \<Rightarrow> 8 word list \<Rightarrow> error + (string \<rightharpoonup> instant)" where
  "VersionedSnapshot_ReadSnapshot decodeHeader decodeTable version blob =
     (case decodeHeader blob of
        Inl err \<Rightarrow> Inl err
      | Inr (v, rest) \<Rightarrow> if v \<noteq> version then Inr Map.empty else decodeTable rest)"

definition Background :: Context where
  "Background = \<lparr>Done = False, GoroutineLabel = None\<rparr>"

text \<open>
  \<^verbatim>\<open>NewWorkflowExecutor\<close>, given the rows of the snapshot table at boot: the state of the new
  executor. It has no error result.
\<close>

definition NewWorkflowExecutor :: "env \<Rightarrow> 8 word list list \<Rightarrow> world" where
  "NewWorkflowExecutor env rows =
     \<lparr>snapshot = readSnapShot env Background rows snapShotVersion,
      metrics = \<lparr>FailedExecutionCounter = 0, CheckPointPanicCounter = 0,
                 CheckPointSaveErrCounter = 0, CheckPointCreationErrCounter = 0,
                 CatchupErrCounter = 0, ScheduleRegistrationFailure = 0,
                 ScheduleReadFailure = 0\<rparr>,
      adminRequests = [],
      rateLimiterTakes = 0,
      writeSnapshotCalls = 0,
      snapshotRows = rows,
      createSnapShotCalls = [],
      jobsMap = Map.empty,
      sleeps = [],
      getAllCalls = 0,
      checkpointerSpawned = False\<rparr>"

section \<open>Concrete runs\<close>

text \<open>
  The inputs of the scenarios of section 8 of the specification: a day whose midnight is
  \<open>day0\<close> seconds after the zero instant, an hourly schedule \<open>A\<close> activated at 09:30, and
  a boot at 11:15.
\<close>

definition day0 :: int where
  "day0 = 63745056000"

definition clock :: "int \<Rightarrow> int \<Rightarrow> instant" where
  "clock h m = (day0 + h * 3600 + m * 60) * Second"

definition hourly :: "instant \<Rightarrow> instant \<Rightarrow> instant list" where
  "hourly fromTime toTime =
     filter (\<lambda>t. fromTime < t \<and> t \<le> toTime) (map (\<lambda>h. clock h 0) [0..24])"

definition sA :: SchedulableEntity where
  "sA = \<lparr>s_Project = ''p'', s_Domain = ''d'', s_Name = ''A'', s_Version = ''v1'',
          CronExpression = ''0 * * * *'', FixedRateValue = 0, FixedRateUnit = MINUTE,
          KickoffTimeInputArg = ''kickoff'', Active = True, UpdatedAt = clock 9 30\<rparr>"

definition sB :: SchedulableEntity where
  "sB = sA\<lparr>s_Name := ''B'', Active := False\<rparr>"

text \<open>Collaborators that never fail; the admin service accepts every request.\<close>

definition env_ok :: env where
  "env_ok =
     \<lparr>GetScheduleName =
        (\<lambda>s. s_Project s @ '':'' @ s_Domain s @ '':'' @ s_Name s @ '':'' @ s_Version s),
      GetExecutionIdentifier = (\<lambda>i t. Inr (push_bit 64 (word_of_int t))),
      GetCatchUpTimes = (\<lambda>s f t. Inr (hourly f t)),
      Register_err = (\<lambda>c s w. None),
      CreateExecution = (\<lambda>h r. None),
      WriteSnapshot = (\<lambda>v n m. ([word_of_int v, 1], None)),
      ReadSnapshot = (\<lambda>v b. Inr Map.empty),
      CreateSnapShot_err = (\<lambda>c h b. None),
      GetLatestSnapShot =
        (\<lambda>c rows. if rows = [] then Inl (PlainError ''record not found'') else Inr (last rows)),
      GetAll = (\<lambda>c n. ([sA, sB], None)),
      Now = (\<lambda>w. clock 11 15)\<rparr>"

text \<open>The admin service answers \<open>Internal\<close> to every submission for the 11:00 instant.\<close>

definition env_down :: env where
  "env_down = env_ok\<lparr>CreateExecution := (\<lambda>h r.
      if ScheduledAt (Metadata (Spec r)) = timestamppb_New (clock 11 0)
      then Some (StatusError Internal ''admin is down'') else None)\<rparr>"

text \<open>The admin service is unavailable twice, then reports a duplicate.\<close>

definition env_flaky :: env where
  "env_flaky = env_ok\<lparr>CreateExecution := (\<lambda>h r.
      if length h < 2 then Some (StatusError Unavailable ''try again'')
      else Some (StatusError AlreadyExists ''execution already exists''))\<rparr>"

text \<open>No execution identifier can be generated for the 11:00 instant.\<close>

definition env_noid :: env where
  "env_noid = env_ok\<lparr>GetExecutionIdentifier := (\<lambda>i t.
      if t = clock 11 0 then Inl (PlainError ''invalid UUID'')
      else Inr (push_bit 64 (word_of_int t)))\<rparr>"

text \<open>The encoder fails after writing nothing; the database refuses every blob.\<close>

definition env_encode_fails :: env where
  "env_encode_fails = env_ok\<lparr>WriteSnapshot := (\<lambda>v n m. ([], Some (PlainError ''gob: encode'')))\<rparr>"

definition env_db_down :: env where
  "env_db_down = env_ok\<lparr>CreateSnapShot_err := (\<lambda>c h b. Some (PlainError ''db is down''))\<rparr>"

text \<open>
  A decoder after the specification, whose header is the first byte of the blob, and one
  that fails on every blob.
\<close>

definition env_versioned :: env where
  "env_versioned = env_ok\<lparr>ReadSnapshot :=
     VersionedSnapshot_ReadSnapshot
       (\<lambda>b. case b of [] \<Rightarrow> Inl (PlainError ''EOF'') | v # rest \<Rightarrow> Inr (uint v, rest))
       (\<lambda>rest. Inr [''p:d:A:v1'' \<mapsto> clock 10 0])\<rparr>"

definition env_undecodable :: env where
  "env_undecodable = env_ok\<lparr>ReadSnapshot := (\<lambda>v b. Inl (PlainError ''unexpected EOF''))\<rparr>"

text \<open>A cold start, and a warm start whose watermark for \<open>A\<close> is at 10:00.\<close>

definition w_boot :: world where
  "w_boot = NewWorkflowExecutor env_ok []"

definition w_warm :: world where
  "w_warm = w_boot\<lparr>snapshot := [''p:d:A:v1'' \<mapsto> clock 10 0]\<rparr>"

definition cancelled :: Context where
  "cancelled = \<lparr>Done = True, GoroutineLabel = None\<rparr>"

section \<open>The execution name\<close>

lemma hexdigit_not_dash: "hexdigit n \<noteq> CHR ''-''"
proof -
  have "n mod 16 < length ''0123456789abcdef''" by simp
  then have "hexdigit n \<in> set ''0123456789abcdef''"
    unfolding hexdigit_def by (rule nth_mem)
  then show ?thesis by auto
qed

lemma hex_bytes_no_dash: "\<forall>c\<in>set (concat (map hex_byte bs)). c \<noteq> CHR ''-''"
  by (induction bs) (simp_all add: hex_byte_def hexdigit_not_dash)

lemma length_hex_bytes: "length (concat (map hex_byte bs)) = 2 * length bs"
  by (induction bs) (simp_all add: hex_byte_def)

lemma filter_piece:
  assumes "\<forall>c\<in>set h. P c"
  shows "filter P (take n (drop m h)) = take n (drop m h)"
    and "filter P (take n h) = take n h"
    and "filter P (drop m h) = drop m h"
  using assms by (auto intro!: filter_True dest: in_set_takeD in_set_dropD)

text \<open>
  The name of a request is \<^verbatim>\<open>"f" + strings.ReplaceAll(id.String(), "-", "")[:19]\<close>. The
  identifier without its dashes has 32 characters, so the slice is in range and the name
  has 20 characters.
\<close>

lemma execution_name_slice_in_range:
  "length (strings_ReplaceAll_dash (UUID_String u)) = 32
   \<and> length (req_Name (executionRequest_of u scheduledTime s)) = 20"
proof -
  let ?h = "concat (map hex_byte (uuid_bytes u))"
  have "length (uuid_bytes u) = 16"
    by (simp add: uuid_bytes_def)
  then have len: "length ?h = 32"
    by (simp only: length_hex_bytes)
  have "strings_ReplaceAll_dash (UUID_String u) =
          take 8 ?h @ take 4 (drop 8 ?h) @ take 4 (drop 12 ?h) @ take 4 (drop 16 ?h) @ drop 20 ?h"
    unfolding strings_ReplaceAll_dash_def UUID_String_def Let_def
    by (simp only: filter_append filter.simps filter_piece [OF hex_bytes_no_dash]
          simp_thms if_False if_True append_Nil append_Cons)
  then have "length (strings_ReplaceAll_dash (UUID_String u)) = 32"
    using len by simp
  then show ?thesis
    by (simp add: executionRequest_of_def)
qed

section \<open>The retry of \<^verbatim>\<open>fire\<close>\<close>

text \<open>
  With the options of \<^verbatim>\<open>fire\<close> every step of the backoff sleeps for the same duration, and
  one run of the condition submits the request once and consults the retry predicate.
\<close>

lemma Backoff_Step_fire:
  "0 < n \<Longrightarrow> Backoff_Step \<lparr>Duration = 0, Factor = 1, Steps = int (Suc n)\<rparr>
     = (0, \<lparr>Duration = 0, Factor = 1, Steps = int n\<rparr>)"
  by (simp add: Backoff_Step_def Let_def trunc_def)

lemma OnError_condition_fire:
  "OnError_condition fire_retriable (fire_submit env req) (l, w) =
     (let a = CreateExecution env (adminRequests w) req;
          w1 = w\<lparr>adminRequests := adminRequests w @ [req]\<rparr>
      in if a = None then ((True, None), (l, w1))
         else if status_Code a = AlreadyExists then ((False, a), (l, w1))
         else ((False, None), (a, w1\<lparr>metrics := (metrics w)\<lparr>FailedExecutionCounter :=
                      FailedExecutionCounter (metrics w) + 1\<rparr>\<rparr>)))"
  by (auto simp: OnError_condition_def fire_retriable_def fire_submit_def Let_def split: option.splits)

text \<open>
  A retry with \<open>n + 1\<close> steps left makes \<open>k + 1\<close> attempts for some \<open>k \<le> n\<close>: the first
  \<open>k\<close> answers were retried, and the last one either ends the retry or uses up the steps.
\<close>

lemma retry_loop:
  "\<exists>k\<le>n. \<exists>r l'.
     ExponentialBackoff (\<lambda>d (l, w'). (l, time_Sleep d w')) \<lparr>Duration = 0, Factor = 1, Steps = int (Suc n)\<rparr>
        (OnError_condition fire_retriable (fire_submit env req)) (l, w)
     = (r, (l', w\<lparr>adminRequests := adminRequests w @ replicate (Suc k) req,
                  metrics := (metrics w)\<lparr>FailedExecutionCounter := FailedExecutionCounter (metrics w) + k
                     + (if retried (submitted env w req k) then 1 else 0)\<rparr>,
                  sleeps := sleeps w @ replicate k 0\<rparr>))
     \<and> (\<forall>i<k. retried (submitted env w req i))
     \<and> (k < n \<longrightarrow> \<not> retried (submitted env w req k))"
proof (induction n arbitrary: l w)
  case 0
  show ?case
    apply (rule exI[of _ 0])
    apply (subst ExponentialBackoff.simps)
    apply (auto simp add: OnError_condition_fire Let_def)
    done
next
  case (Suc n)
  let ?a = "CreateExecution env (adminRequests w) req"
  show ?case
  proof (cases "retried ?a")
    case False
    then show ?thesis
      apply -
      apply (rule exI[of _ 0])
      apply (subst ExponentialBackoff.simps)
      apply (auto simp add: OnError_condition_fire Let_def)
      done
  next
    case True
    let ?w1 = "time_Sleep 0 (w\<lparr>adminRequests := adminRequests w @ [req],
                 metrics := (metrics w)\<lparr>FailedExecutionCounter := FailedExecutionCounter (metrics w) + 1\<rparr>\<rparr>)"
    from Suc.IH[of ?a ?w1] obtain k r l' where k: "k \<le> n"
      and run: "ExponentialBackoff (\<lambda>d (l, w'). (l, time_Sleep d w')) \<lparr>Duration = 0, Factor = 1, Steps = int (Suc n)\<rparr>
        (OnError_condition fire_retriable (fire_submit env req)) (?a, ?w1)
         = (r, (l', ?w1\<lparr>adminRequests := adminRequests ?w1 @ replicate (Suc k) req,
                  metrics := (metrics ?w1)\<lparr>FailedExecutionCounter := FailedExecutionCounter (metrics ?w1) + k
                     + (if retried (submitted env ?w1 req k) then 1 else 0)\<rparr>,
                  sleeps := sleeps ?w1 @ replicate k 0\<rparr>))"
      and before: "\<forall>i<k. retried (submitted env ?w1 req i)"
      and last: "k < n \<longrightarrow> \<not> retried (submitted env ?w1 req k)"
      by blast
    have app: "\<And>m. (adminRequests w @ [req]) @ replicate m req = adminRequests w @ replicate (Suc m) req"
      by (simp add: replicate_app_Cons_same)
    have step: "ExponentialBackoff (\<lambda>d (l, w'). (l, time_Sleep d w')) \<lparr>Duration = 0, Factor = 1, Steps = int (Suc (Suc n))\<rparr>
        (OnError_condition fire_retriable (fire_submit env req)) (l, w)
      = ExponentialBackoff (\<lambda>d (l, w'). (l, time_Sleep d w')) \<lparr>Duration = 0, Factor = 1, Steps = int (Suc n)\<rparr>
        (OnError_condition fire_retriable (fire_submit env req)) (?a, ?w1)"
      apply (subst ExponentialBackoff.simps)
      using True apply (auto simp add: OnError_condition_fire Let_def Backoff_Step_fire[of "Suc n", simplified])
      done
    show ?thesis
      apply (rule exI[of _ "Suc k"])
      apply (rule conjI)
      using k apply simp
      apply (rule exI[of _ r], rule exI[of _ l'])
      apply (rule conjI)
       apply (simp only: step run)
       apply (simp add: time_Sleep_def app replicate_app_Cons_same)
      apply (rule conjI)
      using before True apply (simp add: time_Sleep_def app less_Suc_eq_0_disj)
       apply (auto simp: less_Suc_eq_0_disj)[1]
      using last apply (simp add: time_Sleep_def app)
      done
  qed
qed

text \<open>What \<^verbatim>\<open>fire\<close> does for an active schedule whose identifier was generated.\<close>

lemma fire_retry:
  assumes "Active s" and "GetExecutionIdentifier env (identifier_of s) t = Inr u"
  shows "\<exists>k<30. fire env t s w =
            (None, w\<lparr>adminRequests := adminRequests w @ replicate (Suc k) (executionRequest_of u t s),
                  metrics := (metrics w)\<lparr>FailedExecutionCounter := FailedExecutionCounter (metrics w) + k
                     + (if retried (submitted env w (executionRequest_of u t s) k) then 1 else 0)\<rparr>,
                  sleeps := sleeps w @ replicate k 0\<rparr>)
     \<and> (\<forall>i<k. retried (submitted env w (executionRequest_of u t s) i))
     \<and> (k < 29 \<longrightarrow> \<not> retried (submitted env w (executionRequest_of u t s) k))"
proof -
  from retry_loop[of 29 env "executionRequest_of u t s" None w]
  obtain k r l' where k: "k \<le> 29"
    and run: "ExponentialBackoff (\<lambda>d (l, w'). (l, time_Sleep d w')) \<lparr>Duration = 0, Factor = 1, Steps = int (Suc 29)\<rparr>
        (OnError_condition fire_retriable (fire_submit env (executionRequest_of u t s))) (None, w)
     = (r, (l', w\<lparr>adminRequests := adminRequests w @ replicate (Suc k) (executionRequest_of u t s),
                  metrics := (metrics w)\<lparr>FailedExecutionCounter := FailedExecutionCounter (metrics w) + k
                     + (if retried (submitted env w (executionRequest_of u t s) k) then 1 else 0)\<rparr>,
                  sleeps := sleeps w @ replicate k 0\<rparr>))"
    and before: "\<forall>i<k. retried (submitted env w (executionRequest_of u t s) i)"
    and last: "k < 29 \<longrightarrow> \<not> retried (submitted env w (executionRequest_of u t s) k)"
    by blast
  have "fire env t s w =
            (None, w\<lparr>adminRequests := adminRequests w @ replicate (Suc k) (executionRequest_of u t s),
                  metrics := (metrics w)\<lparr>FailedExecutionCounter := FailedExecutionCounter (metrics w) + k
                     + (if retried (submitted env w (executionRequest_of u t s) k) then 1 else 0)\<rparr>,
                  sleeps := sleeps w @ replicate k 0\<rparr>)"
    using assms run by (simp add: fire_def retry_OnError_def fire_opts_def)
  with k before last show ?thesis
    by (intro exI[of _ k]) simp
qed

section \<open>Frame and sequencing lemmas\<close>

text \<open>An inactive schedule makes \<^verbatim>\<open>fire\<close> return before it touches anything.\<close>

lemma fire_inactive: "\<not> Active s \<Longrightarrow> snd (fire env t s w) = w"
  by (simp add: fire_def split: sum.split)

text \<open>Firing and catching up leave the cron registry and the checkpointer flag alone.\<close>

lemma fire_frame:
  "jobsMap (snd (fire env t s w)) = jobsMap w
   \<and> checkpointerSpawned (snd (fire env t s w)) = checkpointerSpawned w"
proof (cases "GetExecutionIdentifier env (identifier_of s) t")
  case (Inl err)
  then show ?thesis by (simp add: fire_def)
next
  case (Inr u)
  show ?thesis
  proof (cases "Active s")
    case True
    from fire_retry [OF True Inr, of w] obtain k where
      "fire env t s w =
         (None, w\<lparr>adminRequests := adminRequests w @ replicate (Suc k) (executionRequest_of u t s),
                  metrics := (metrics w)\<lparr>FailedExecutionCounter := FailedExecutionCounter (metrics w) + k
                     + (if retried (submitted env w (executionRequest_of u t s) k) then 1 else 0)\<rparr>,
                  sleeps := sleeps w @ replicate k 0\<rparr>)"
      by blast
    then show ?thesis by simp
  next
    case False
    then show ?thesis by (simp add: fire_inactive)
  qed
qed

lemma catchUpLoop_frame:
  "jobsMap (snd (catchUpLoop env s n ts w)) = jobsMap w
   \<and> checkpointerSpawned (snd (catchUpLoop env s n ts w)) = checkpointerSpawned w"
proof (induction ts arbitrary: w)
  case Nil
  show ?case by simp
next
  case (Cons t ts)
  obtain r w' where f: "fire env t s (rateLimiter_Take w) = (r, w')"
    by (cases "fire env t s (rateLimiter_Take w)")
  from fire_frame [of env t s "rateLimiter_Take w"] f
  have fr: "jobsMap w' = jobsMap w \<and> checkpointerSpawned w' = checkpointerSpawned w"
    by (simp add: rateLimiter_Take_def)
  show ?case
  proof (cases r)
    case None
    with f fr Cons.IH [of "UpdateLastExecutionTime n t w'"] show ?thesis
      by (simp add: UpdateLastExecutionTime_def)
  next
    case (Some err)
    with f fr show ?thesis by simp
  qed
qed

lemma CatchUpSingleSchedule_frame:
  "jobsMap (snd (CatchUpSingleSchedule env s f t w)) = jobsMap w
   \<and> checkpointerSpawned (snd (CatchUpSingleSchedule env s f t w)) = checkpointerSpawned w"
  by (simp add: CatchUpSingleSchedule_def catchUpLoop_frame split: sum.split)

text \<open>Both catch-up loops run a list in order and stop at the first error.\<close>

lemma catchUpLoop_append:
  "catchUpLoop env s n (xs @ ys) w =
     (case catchUpLoop env s n xs w of
        (Some err, w') \<Rightarrow> (Some err, w')
      | (None, w') \<Rightarrow> catchUpLoop env s n ys w')"
  by (induction xs arbitrary: w) (auto split: prod.split option.split)

lemma CatchUpAllSchedules_append:
  "CatchUpAllSchedules env (xs @ ys) toTime w =
     (case CatchUpAllSchedules env xs toTime w of
        (Some err, w') \<Rightarrow> (Some err, w')
      | (None, w') \<Rightarrow> CatchUpAllSchedules env ys toTime w')"
  by (induction xs arbitrary: w) (auto split: prod.split option.split)

lemma CatchUpAllSchedules_frame:
  "jobsMap (snd (CatchUpAllSchedules env ss toTime w)) = jobsMap w
   \<and> checkpointerSpawned (snd (CatchUpAllSchedules env ss toTime w)) = checkpointerSpawned w"
proof (induction ss arbitrary: w)
  case Nil
  show ?case by simp
next
  case (Cons s ss)
  show ?case
  proof (cases "Active s")
    case False
    with Cons.IH show ?thesis by simp
  next
    case True
    obtain r w' where c: "CatchUpSingleSchedule env s (catchUpFromTime env s w) toTime w = (r, w')"
      by (cases "CatchUpSingleSchedule env s (catchUpFromTime env s w) toTime w")
    from CatchUpSingleSchedule_frame [of env s "catchUpFromTime env s w" toTime w] c
    have fr: "jobsMap w' = jobsMap w \<and> checkpointerSpawned w' = checkpointerSpawned w"
      by simp
    from True c fr Cons.IH [of w'] show ?thesis
      by (cases r) simp_all
  qed
qed

text \<open>The control loop does not return.\<close>

lemma Run_loop_never_returns: "Run_loop env ctx sw = None"
proof (cases "Run_loop env ctx sw")
  case None
  then show ?thesis .
next
  case (Some y)
  have False
    by (rule Run_loop.raw_induct [where P = "\<lambda>_ _ _ _. False", OF _ Some]) blast
  then show ?thesis ..
qed

text \<open>Once the schedules are read and caught up, \<^verbatim>\<open>Run\<close> is its loop.\<close>

lemma Run_after_boot:
  assumes "GetAll env ctx (getAllCalls w) = (schedules, None)"
    and "CatchUpAllSchedules env schedules (Now env (w\<lparr>getAllCalls := getAllCalls w + 1\<rparr>))
           (w\<lparr>getAllCalls := getAllCalls w + 1\<rparr>) = (None, w2)"
  shows "Run env ctx w = None"
  using assms by (simp add: Run_def Let_def Run_loop_never_returns)

text \<open>A pass of the checkpointer does not write the watermark table, and failures that repeat
  are counted once per pass.\<close>

lemma CheckPointState_iteration_snapshot:
  "snapshot ((CheckPointState_iteration env ctx ^^ n) w) = snapshot w"
proof (induction n)
  case 0
  show ?case by simp
next
  case (Suc n)
  have "snapshot (CheckPointState_iteration env ctx x) = snapshot x" for x
    by (auto simp: CheckPointState_iteration_def CreateSnapShot_def time_Sleep_def Let_def
          split: prod.split option.split)
  with Suc show ?case by simp
qed

lemma CheckPointState_iteration_counts:
  assumes "\<not> IsEmpty w"
  shows "((\<forall>m tbl. snd (WriteSnapshot env snapShotVersion m tbl) \<noteq> None) \<longrightarrow>
            CheckPointCreationErrCounter (metrics ((CheckPointState_iteration env ctx ^^ n) w))
              = CheckPointCreationErrCounter (metrics w) + n)
       \<and> ((\<forall>h b. CreateSnapShot_err env ctx h b \<noteq> None) \<longrightarrow>
            CheckPointSaveErrCounter (metrics ((CheckPointState_iteration env ctx ^^ n) w))
              = CheckPointSaveErrCounter (metrics w) + n)"
proof (induction n)
  case 0
  show ?case by simp
next
  case (Suc n)
  let ?x = "(CheckPointState_iteration env ctx ^^ n) w"
  from assms have ne: "\<not> IsEmpty ?x"
    by (simp add: IsEmpty_def CheckPointState_iteration_snapshot)
  have enc: "snd (WriteSnapshot env snapShotVersion (writeSnapshotCalls ?x) (snapshot ?x)) \<noteq> None \<Longrightarrow>
      CheckPointCreationErrCounter (metrics (CheckPointState_iteration env ctx ?x))
        = CheckPointCreationErrCounter (metrics ?x) + 1"
    using ne
    by (auto simp: CheckPointState_iteration_def CreateSnapShot_def time_Sleep_def Let_def
          split: prod.split option.split)
  have sav: "CreateSnapShot_err env ctx (createSnapShotCalls ?x)
               (fst (WriteSnapshot env snapShotVersion (writeSnapshotCalls ?x) (snapshot ?x))) \<noteq> None \<Longrightarrow>
      CheckPointSaveErrCounter (metrics (CheckPointState_iteration env ctx ?x))
        = CheckPointSaveErrCounter (metrics ?x) + 1"
    using ne
    by (auto simp: CheckPointState_iteration_def CreateSnapShot_def time_Sleep_def Let_def
          split: prod.split option.split)
  from Suc enc sav show ?case by simp
qed

text \<open>
  A run of the checkpointer loop for \<open>n\<close> passes is the \<open>n\<close>-fold pass; every pass sleeps
  once, a pass over a non-empty table runs the encoder and calls the repository once, and
  passes over an empty table only sleep.
\<close>

lemma CheckPointState_passes:
  "CheckPointState n env ctx w = OutOfFuel ((CheckPointState_iteration env ctx ^^ n) w)"
  by (induction n arbitrary: w) (simp_all add: funpow_swap1)

lemma CheckPointState_iteration_sleeps:
  "sleeps ((CheckPointState_iteration env ctx ^^ n) w) = sleeps w @ replicate n (30 * Second)"
proof (induction n)
  case 0
  show ?case by simp
next
  case (Suc n)
  have "sleeps (CheckPointState_iteration env ctx x) = sleeps x @ [30 * Second]" for x
    by (auto simp: CheckPointState_iteration_def CreateSnapShot_def time_Sleep_def Let_def
          snapshotWriterSleepTime_def split: prod.split option.split)
  with Suc show ?case by (simp add: replicate_append_same)
qed

lemma CheckPointState_iteration_calls:
  assumes "\<not> IsEmpty w"
  shows "writeSnapshotCalls ((CheckPointState_iteration env ctx ^^ n) w) = writeSnapshotCalls w + n
       \<and> length (createSnapShotCalls ((CheckPointState_iteration env ctx ^^ n) w))
           = length (createSnapShotCalls w) + n"
proof (induction n)
  case 0
  show ?case by simp
next
  case (Suc n)
  let ?x = "(CheckPointState_iteration env ctx ^^ n) w"
  from assms have ne: "\<not> IsEmpty ?x"
    by (simp add: IsEmpty_def CheckPointState_iteration_snapshot)
  then have "writeSnapshotCalls (CheckPointState_iteration env ctx ?x) = writeSnapshotCalls ?x + 1
       \<and> length (createSnapShotCalls (CheckPointState_iteration env ctx ?x))
           = length (createSnapShotCalls ?x) + 1"
    by (auto simp: CheckPointState_iteration_def CreateSnapShot_def time_Sleep_def Let_def
          split: prod.split option.split)
  with Suc show ?case by simp
qed

lemma CheckPointState_iteration_empty:
  assumes "IsEmpty w"
  shows "(CheckPointState_iteration env ctx ^^ n) w
           = w\<lparr>sleeps := sleeps w @ replicate n (30 * Second)\<rparr>"
proof (induction n)
  case 0
  show ?case by simp
next
  case (Suc n)
  from assms have "IsEmpty (w\<lparr>sleeps := sleeps w @ replicate n (30 * Second)\<rparr>)"
    by (simp add: IsEmpty_def)
  with Suc show ?case
    by (simp add: CheckPointState_iteration_def time_Sleep_def snapshotWriterSleepTime_def
          replicate_append_same)
qed

lemma CheckPointState_iteration_rows:
  assumes "\<forall>h b. CreateSnapShot_err env ctx h b \<noteq> None"
  shows "snapshotRows ((CheckPointState_iteration env ctx ^^ n) w) = snapshotRows w"
proof (induction n)
  case 0
  show ?case by simp
next
  case (Suc n)
  have "snapshotRows (CheckPointState_iteration env ctx x) = snapshotRows x" for x
  proof -
    obtain f err where enc:
      "WriteSnapshot env snapShotVersion (writeSnapshotCalls x) (snapshot x) = (f, err)"
      by (cases "WriteSnapshot env snapShotVersion (writeSnapshotCalls x) (snapshot x)")
    from assms have "CreateSnapShot_err env ctx (createSnapShotCalls x) f \<noteq> None"
      by blast
    then obtain e where "CreateSnapShot_err env ctx (createSnapShotCalls x) f = Some e"
      by blast
    with enc show ?thesis
      by (simp add: CheckPointState_iteration_def CreateSnapShot_def time_Sleep_def Let_def)
  qed
  with Suc show ?case by simp
qed

text \<open>The instants of the hourly schedule between 10:00 and 11:15.\<close>

lemma hourly_warm: "hourly (clock 10 0) (clock 11 15) = [clock 11 0]"
  by code_simp

lemmas concrete_defs = sA_def sB_def env_ok_def env_down_def env_flaky_def env_noid_def
  w_boot_def w_warm_def NewWorkflowExecutor_def identifier_of_def clock_def day0_def Second_def
  GetLastExecutionTime_def IsZero_def After_def

section \<open>The claims\<close>

subsection \<open>C1: exhausted retries and the watermark\<close>

text \<open>
  C1 says that an instant whose submission fails on every attempt does not advance the
  watermark. The code does advance it: \<^verbatim>\<open>fire\<close> assigns the result of the retry to \<^verbatim>\<open>err\<close> and
  then returns nil, so \<^verbatim>\<open>CatchUpSingleSchedule\<close> takes the \<^verbatim>\<open>else\<close> branch that updates the
  table. On a warm start with the watermark of \<open>A\<close> at 10:00 and the admin service answering
  \<open>Internal\<close> to all 30 attempts for 11:00, catch-up reports no error, counts no catch-up
  error and leaves the watermark at 11:00.
\<close>

theorem catchUp_advances_watermark_after_exhausted_retries:
  "snapshot w_warm ''p:d:A:v1'' = Some (clock 10 0)
   \<and> (case CatchUpAllSchedules env_down [sA] (clock 11 15) w_warm of
        (err, w') \<Rightarrow>
          err = None
          \<and> length (adminRequests w') = 30
          \<and> FailedExecutionCounter (metrics w') = 30
          \<and> CatchupErrCounter (metrics w') = 0
          \<and> snapshot w' ''p:d:A:v1'' = Some (clock 11 0))"
  by code_simp

text \<open>
  The same holds for every admin client: once the identifier of an active schedule is
  generated, catch-up on an instant sets the watermark to it and counts no catch-up error.
\<close>

lemma catchUpLoop_advances_whatever_admin_answers:
  assumes "Active s" and "GetExecutionIdentifier env (identifier_of s) t = Inr u"
  shows "fst (catchUpLoop env s n [t] w) = None
       \<and> snapshot (snd (catchUpLoop env s n [t] w)) n = Some t
       \<and> CatchupErrCounter (metrics (snd (catchUpLoop env s n [t] w)))
           = CatchupErrCounter (metrics w)"
proof -
  from fire_retry [OF assms, of "rateLimiter_Take w"] obtain w' where
    f: "fire env t s (rateLimiter_Take w) = (None, w')"
    and m: "CatchupErrCounter (metrics w') = CatchupErrCounter (metrics (rateLimiter_Take w))"
    by auto
  from f m show ?thesis
    by (simp add: UpdateLastExecutionTime_def rateLimiter_Take_def)
qed

subsection \<open>C2: what \<^verbatim>\<open>fire\<close> returns\<close>



subsection \<open>C3: the lower bound of the replay interval\<close>

text \<open>
  C3: for an active schedule, \<^verbatim>\<open>CatchUpAllSchedules\<close> hands to \<^verbatim>\<open>CatchUpSingleSchedule\<close> the
  lower bound \<open>max(updated_at, watermark)\<close>: \<open>updated_at\<close> when the table has no entry for
  the schedule (the table then answers the zero instant, and a stored zero instant is read
  the same way), and the larger of the two otherwise. By cases: the bound is \<open>updated_at\<close>
  when the answer of the table is the zero instant or is not after \<open>updated_at\<close>, and it is
  the watermark when that is a non-zero instant strictly after \<open>updated_at\<close>.
\<close>

theorem catchUp_fromTime_max:
  assumes "Active s"
  shows "CatchUpAllSchedules env (s # schedules) toTime w =
           (case CatchUpSingleSchedule env s
                   (case snapshot w (GetScheduleName env s) of
                      None \<Rightarrow> UpdatedAt s
                    | Some lastT \<Rightarrow> if IsZero lastT then UpdatedAt s else max (UpdatedAt s) lastT)
                   toTime w of
              (Some err, w') \<Rightarrow> (Some err, w')
            | (None, w') \<Rightarrow> CatchUpAllSchedules env schedules toTime w')
       \<and> (IsZero (GetLastExecutionTime (GetScheduleName env s) w)
            \<or> \<not> After (GetLastExecutionTime (GetScheduleName env s) w) (UpdatedAt s)
          \<longrightarrow> catchUpFromTime env s w = UpdatedAt s)
       \<and> (\<not> IsZero (GetLastExecutionTime (GetScheduleName env s) w)
            \<and> After (GetLastExecutionTime (GetScheduleName env s) w) (UpdatedAt s)
          \<longrightarrow> catchUpFromTime env s w = GetLastExecutionTime (GetScheduleName env s) w)"
proof -
  have "catchUpFromTime env s w =
          (case snapshot w (GetScheduleName env s) of
             None \<Rightarrow> UpdatedAt s
           | Some lastT \<Rightarrow> if IsZero lastT then UpdatedAt s else max (UpdatedAt s) lastT)"
    by (auto simp: catchUpFromTime_def GetLastExecutionTime_def IsZero_def After_def Let_def
          split: option.split)
  moreover have "IsZero (GetLastExecutionTime (GetScheduleName env s) w)
            \<or> \<not> After (GetLastExecutionTime (GetScheduleName env s) w) (UpdatedAt s)
          \<longrightarrow> catchUpFromTime env s w = UpdatedAt s"
    by (simp add: catchUpFromTime_def Let_def)
  moreover have "\<not> IsZero (GetLastExecutionTime (GetScheduleName env s) w)
            \<and> After (GetLastExecutionTime (GetScheduleName env s) w) (UpdatedAt s)
          \<longrightarrow> catchUpFromTime env s w = GetLastExecutionTime (GetScheduleName env s) w"
    by (simp add: catchUpFromTime_def Let_def)
  ultimately show ?thesis
    using assms by simp
qed

text \<open>A cold and a warm start of \<open>A\<close>: the bound is 09:30, then 10:00.\<close>

theorem catchUp_fromTime_max_witness:
  "Active sA
   \<and> snapshot w_boot (GetScheduleName env_ok sA) = None
   \<and> catchUpFromTime env_ok sA w_boot = clock 9 30
   \<and> snapshot w_warm (GetScheduleName env_ok sA) = Some (clock 10 0)
   \<and> catchUpFromTime env_ok sA w_warm = clock 10 0"
  using catchUp_fromTime_max [of sA env_ok "[]" "clock 11 15" w_boot]
    catchUp_fromTime_max [of sA env_ok "[]" "clock 11 15" w_warm]
  by (simp add: concrete_defs readSnapShot_def)

subsection \<open>C4: the retry policy of \<^verbatim>\<open>fire\<close>\<close>

text \<open>
  C4: the retry predicate sends an \<open>AlreadyExists\<close> error to no further attempt and does
  not count it; it sends every other error to another attempt and adds one to
  \<open>failed_execution\<close>. For an active schedule \<^verbatim>\<open>fire\<close> therefore makes \<open>k + 1\<close> attempts with
  \<open>k < 30\<close>, all with the same request: the first \<open>k\<close> answers were errors other than
  \<open>AlreadyExists\<close>; the last answer is nil or \<open>AlreadyExists\<close> unless it was attempt number
  30; the counter grows by the number of answers that were errors other than
  \<open>AlreadyExists\<close>; the \<open>k\<close> sleeps between the attempts all have the same duration; and
  \<^verbatim>\<open>fire\<close> returns nil.
\<close>

theorem fire_retry_policy:
  assumes "Active s"
    and "GetExecutionIdentifier env (identifier_of s) scheduledTime = Inr u"
  shows "(status_Code (Some e) = AlreadyExists \<longrightarrow> fire_retriable (Some e) w = (False, w))
       \<and> (status_Code (Some e) \<noteq> AlreadyExists \<longrightarrow>
            fire_retriable (Some e) w =
              (True, w\<lparr>metrics := (metrics w)\<lparr>FailedExecutionCounter :=
                                   FailedExecutionCounter (metrics w) + 1\<rparr>\<rparr>))
       \<and> (\<exists>k<30.
            fire env scheduledTime s w =
              (None,
               w\<lparr>adminRequests :=
                    adminRequests w @ replicate (Suc k) (executionRequest_of u scheduledTime s),
                  metrics := (metrics w)\<lparr>FailedExecutionCounter :=
                    FailedExecutionCounter (metrics w) + k
                    + (if retried (submitted env w (executionRequest_of u scheduledTime s) k)
                       then 1 else 0)\<rparr>,
                  sleeps := sleeps w @ replicate k 0\<rparr>)
            \<and> (\<forall>i<k. retried (submitted env w (executionRequest_of u scheduledTime s) i))
            \<and> (k < 29 \<longrightarrow>
                 \<not> retried (submitted env w (executionRequest_of u scheduledTime s) k)))"
  using fire_retry [OF assms, of w] by (simp add: fire_retriable_def)

text \<open>
  The admin service is unavailable twice and then reports a duplicate: three attempts, two
  counted failures, two sleeps, and \<^verbatim>\<open>fire\<close> returns nil.
\<close>

theorem fire_retry_policy_witness:
  "Active sA
   \<and> GetExecutionIdentifier env_flaky (identifier_of sA) (clock 11 0)
       = Inr (push_bit 64 (word_of_int (clock 11 0)))
   \<and> fire_retriable (Some (StatusError AlreadyExists ''execution already exists'')) w_boot
       = (False, w_boot)
   \<and> fst (fire env_flaky (clock 11 0) sA w_boot) = None
   \<and> length (adminRequests (snd (fire env_flaky (clock 11 0) sA w_boot))) = 3
   \<and> FailedExecutionCounter (metrics (snd (fire env_flaky (clock 11 0) sA w_boot))) = 2
   \<and> sleeps (snd (fire env_flaky (clock 11 0) sA w_boot)) = [0, 0]"
proof -
  let ?u = "push_bit 64 (word_of_int (clock 11 0)) :: UUID"
  let ?req = "executionRequest_of ?u (clock 11 0) sA"
  have act: "Active sA"
    by (simp add: sA_def)
  have ident: "GetExecutionIdentifier env_flaky (identifier_of sA) (clock 11 0) = Inr ?u"
    by (simp add: env_flaky_def env_ok_def)
  have ans: "retried (submitted env_flaky w_boot ?req i) \<longleftrightarrow> i < 2" for i
    by (simp add: env_flaky_def env_ok_def w_boot_def NewWorkflowExecutor_def)
  have start: "adminRequests w_boot = [] \<and> FailedExecutionCounter (metrics w_boot) = 0
      \<and> sleeps w_boot = []"
    by (simp add: w_boot_def NewWorkflowExecutor_def)
  from fire_retry_policy [OF act ident, of "StatusError AlreadyExists ''execution already exists''" w_boot]
  obtain k where pred: "fire_retriable (Some (StatusError AlreadyExists ''execution already exists'')) w_boot
       = (False, w_boot)"
    and run: "fire env_flaky (clock 11 0) sA w_boot =
              (None,
               w_boot\<lparr>adminRequests := adminRequests w_boot @ replicate (Suc k) ?req,
                  metrics := (metrics w_boot)\<lparr>FailedExecutionCounter :=
                    FailedExecutionCounter (metrics w_boot) + k
                    + (if retried (submitted env_flaky w_boot ?req k) then 1 else 0)\<rparr>,
                  sleeps := sleeps w_boot @ replicate k 0\<rparr>)"
    and before: "\<forall>i<k. retried (submitted env_flaky w_boot ?req i)"
    and last: "k < 29 \<longrightarrow> \<not> retried (submitted env_flaky w_boot ?req k)"
    by auto
  have "k \<le> 2"
  proof (rule ccontr)
    assume "\<not> k \<le> 2"
    then have "2 < k" by simp
    with before have "retried (submitted env_flaky w_boot ?req 2)" by blast
    with ans [of 2] show False by simp
  qed
  moreover have "2 \<le> k"
  proof -
    from \<open>k \<le> 2\<close> have "k < 29" by simp
    with last have "\<not> retried (submitted env_flaky w_boot ?req k)" by blast
    with ans [of k] have "\<not> k < 2" by blast
    then show ?thesis by simp
  qed
  ultimately have k: "k = 2" by simp
  from run k ans [of 2] start act ident pred show ?thesis
    by (simp add: numeral_2_eq_2)
qed

subsection \<open>C5: an error of \<^verbatim>\<open>fire\<close> aborts the boot\<close>

text \<open>
  C5: let the schedules read at boot be \<open>before @ s # later\<close>, let catch-up succeed on
  \<open>before\<close>, let the instants of the active schedule \<open>s\<close> be \<open>earlier @ t # rest\<close>, let
  \<open>earlier\<close> fire without error, and let \<^verbatim>\<open>fire\<close> return the error \<open>err\<close> for \<open>t\<close>. Then
  \<^verbatim>\<open>CatchUpSingleSchedule\<close> adds one to \<open>catchup_error\<close> and returns \<open>err\<close>, whatever \<open>rest\<close>
  is; \<^verbatim>\<open>CatchUpAllSchedules\<close> returns the same error in the same state, whatever \<open>later\<close> is;
  and \<^verbatim>\<open>Run\<close> returns an error that wraps \<open>err\<close>, with the checkpointer not started and the
  cron registry as it was.
\<close>

theorem catchUp_fire_error_aborts:
  assumes "GetAll env ctx (getAllCalls wi) = (before @ s # later, None)"
    and "w0 = wi\<lparr>getAllCalls := getAllCalls wi + 1\<rparr>"
    and "toTime = Now env w0"
    and "CatchUpAllSchedules env before toTime w0 = (None, w)"
    and "Active s"
    and "GetCatchUpTimes env s (catchUpFromTime env s w) toTime = Inr (earlier @ t # rest)"
    and "catchUpLoop env s (GetScheduleName env s) earlier w = (None, w1)"
    and "fire env t s (rateLimiter_Take w1) = (Some err, w2)"
    and "w3 = w2\<lparr>metrics := (metrics w2)\<lparr>CatchupErrCounter :=
                   CatchupErrCounter (metrics w2) + 1\<rparr>\<rparr>"
  shows "CatchUpSingleSchedule env s (catchUpFromTime env s w) toTime w = (Some err, w3)
       \<and> CatchUpAllSchedules env (before @ s # later) toTime w0 = (Some err, w3)
       \<and> Run env ctx wi =
           Some (Some (Errorf ''unable to catch up on the schedules due to '' err), w3)
       \<and> checkpointerSpawned w3 = checkpointerSpawned wi
       \<and> jobsMap w3 = jobsMap wi"
proof -
  have single: "CatchUpSingleSchedule env s (catchUpFromTime env s w) toTime w = (Some err, w3)"
    using assms(6-9) by (simp add: CatchUpSingleSchedule_def catchUpLoop_append)
  have all: "CatchUpAllSchedules env (before @ s # later) toTime w0 = (Some err, w3)"
    using assms(4,5) single by (simp add: CatchUpAllSchedules_append)
  have run: "Run env ctx wi =
           Some (Some (Errorf ''unable to catch up on the schedules due to '' err), w3)"
    using assms(1-3) all by (simp add: Run_def Let_def)
  from CatchUpAllSchedules_frame [of env "before @ s # later" toTime w0] all assms(2)
  have "checkpointerSpawned w3 = checkpointerSpawned wi \<and> jobsMap w3 = jobsMap wi"
    by simp
  with single all run show ?thesis by simp
qed

text \<open>
  A warm start where no identifier can be generated for 11:00: \<^verbatim>\<open>Run\<close> returns the wrapped
  error after one token and one catch-up error, with the checkpointer not started.
\<close>

theorem catchUp_fire_error_aborts_witness:
  "Active sA
   \<and> GetAll env_noid Background (getAllCalls w_warm) = ([] @ sA # [sB], None)
   \<and> CatchUpAllSchedules env_noid [] (clock 11 15) (w_warm\<lparr>getAllCalls := getAllCalls w_warm + 1\<rparr>)
       = (None, w_warm\<lparr>getAllCalls := getAllCalls w_warm + 1\<rparr>)
   \<and> GetCatchUpTimes env_noid sA
        (catchUpFromTime env_noid sA (w_warm\<lparr>getAllCalls := getAllCalls w_warm + 1\<rparr>))
        (clock 11 15) = Inr ([] @ clock 11 0 # [])
   \<and> fire env_noid (clock 11 0) sA
        (rateLimiter_Take (w_warm\<lparr>getAllCalls := getAllCalls w_warm + 1\<rparr>))
       = (Some (PlainError ''invalid UUID''),
          rateLimiter_Take (w_warm\<lparr>getAllCalls := getAllCalls w_warm + 1\<rparr>))
   \<and> Run env_noid Background w_warm =
       Some (Some (PlainError ''unable to catch up on the schedules due to invalid UUID''),
             w_warm\<lparr>getAllCalls := 1, rateLimiterTakes := 1,
               metrics := (metrics w_warm)\<lparr>CatchupErrCounter := 1\<rparr>\<rparr>)
   \<and> \<not> checkpointerSpawned w_warm
   \<and> snapshot w_warm ''p:d:A:v1'' = Some (clock 10 0)"
proof -
  let ?w0 = "w_warm\<lparr>getAllCalls := getAllCalls w_warm + 1\<rparr>"
  let ?w2 = "rateLimiter_Take ?w0"
  let ?w3 = "?w2\<lparr>metrics := (metrics ?w2)\<lparr>CatchupErrCounter :=
                   CatchupErrCounter (metrics ?w2) + 1\<rparr>\<rparr>"
  have act: "Active sA"
    by (simp add: sA_def)
  have getall: "GetAll env_noid Background (getAllCalls w_warm) = ([] @ sA # [sB], None)"
    by (simp add: env_noid_def env_ok_def)
  have nowT: "clock 11 15 = Now env_noid ?w0"
    by (simp add: env_noid_def env_ok_def)
  have before: "CatchUpAllSchedules env_noid [] (clock 11 15) ?w0 = (None, ?w0)"
    by simp
  have lower: "catchUpFromTime env_noid sA ?w0 = clock 10 0"
    by (simp add: catchUpFromTime_def concrete_defs Let_def)
  have times: "GetCatchUpTimes env_noid sA (catchUpFromTime env_noid sA ?w0) (clock 11 15)
                = Inr ([] @ clock 11 0 # [])"
    by (simp only: lower) (simp add: env_noid_def env_ok_def hourly_warm)
  have earlier: "catchUpLoop env_noid sA (GetScheduleName env_noid sA) [] ?w0 = (None, ?w0)"
    by simp
  have fired: "fire env_noid (clock 11 0) sA ?w2 = (Some (PlainError ''invalid UUID''), ?w2)"
    by (simp add: fire_def env_noid_def)
  from catchUp_fire_error_aborts [OF getall refl nowT before act times earlier fired refl]
  have "Run env_noid Background w_warm =
          Some (Some (Errorf ''unable to catch up on the schedules due to ''
                  (PlainError ''invalid UUID'')), ?w3)"
    by simp
  moreover have "?w3 = w_warm\<lparr>getAllCalls := 1, rateLimiterTakes := 1,
               metrics := (metrics w_warm)\<lparr>CatchupErrCounter := 1\<rparr>\<rparr>"
    by (simp add: rateLimiter_Take_def w_warm_def w_boot_def NewWorkflowExecutor_def)
  moreover have "\<not> checkpointerSpawned w_warm \<and> snapshot w_warm ''p:d:A:v1'' = Some (clock 10 0)"
    by (simp add: w_warm_def w_boot_def NewWorkflowExecutor_def)
  ultimately show ?thesis
    using act getall before times fired by (simp add: Errorf_def)
qed

subsection \<open>C6: inactive schedules\<close>

text \<open>
  C6: a schedule whose \<open>active\<close> flag is false contributes nothing to catch-up: the run
  over a list that contains it is the run over the list without it, and catching up on it
  alone returns the state as it was (no token taken, nothing submitted, no watermark
  written). A live tick delivered for it, and \<^verbatim>\<open>fire\<close> itself, leave the state as it was.
\<close>

theorem inactive_schedule_is_skipped:
  assumes "\<not> Active s"
  shows "CatchUpAllSchedules env (before @ s # later) toTime w
           = CatchUpAllSchedules env (before @ later) toTime w
       \<and> CatchUpAllSchedules env [s] toTime w = (None, w)
       \<and> funcRef env s scheduleTime w = w
       \<and> snd (fire env scheduleTime s w) = w"
  using assms
  by (auto simp: CatchUpAllSchedules_append funcRef_def fire_inactive
        split: prod.split option.split)

text \<open>The inactive schedule \<open>B\<close>, in catch-up and on a tick at 12:00.\<close>

theorem inactive_schedule_is_skipped_witness:
  "\<not> Active sB
   \<and> CatchUpAllSchedules env_ok [sB] (clock 11 15) w_warm = (None, w_warm)
   \<and> funcRef env_ok sB (clock 12 0) w_warm = w_warm
   \<and> adminRequests (funcRef env_ok sB (clock 12 0) w_warm) = []
   \<and> snapshot (funcRef env_ok sB (clock 12 0) w_warm) (GetScheduleName env_ok sB) = None"
  using inactive_schedule_is_skipped [of sB env_ok "[]" "[]" "clock 11 15" w_warm "clock 12 0"]
  by (simp add: sB_def sA_def w_warm_def w_boot_def NewWorkflowExecutor_def env_ok_def)

subsection \<open>C7: the passes of the checkpointer\<close>

text \<open>
  C7: a pass of the checkpointer over an empty table only sleeps: the encoder is not run
  and the repository is not called. Over a non-empty table whose encoding and saving
  succeed, the blob is appended as a new row. An encoder error adds one to
  \<open>checkpoint_creation_error\<close>, a refused save adds one to \<open>checkpoint_save_error\<close>. Every
  pass ends with a sleep of 30 seconds, and the loop goes on to the next pass whatever
  failed: for every behaviour of the encoder and of the repository, the loop given \<open>n\<close>
  passes has not exited, has slept \<open>n\<close> times 30 seconds, and over a non-empty table has run
  the encoder \<open>n\<close> times and called the repository \<open>n\<close> times; when the encoder fails on
  every pass, or the repository refuses every blob, the \<open>n\<close> passes count \<open>n\<close> errors.
\<close>

theorem checkpoint_iteration:
  "(IsEmpty w \<longrightarrow>
      CheckPointState_iteration env ctx w = time_Sleep (snapshotWriterSleepTime * Second) w)
   \<and> (\<not> IsEmpty w
        \<and> WriteSnapshot env snapShotVersion (writeSnapshotCalls w) (snapshot w) = (f, None)
        \<and> CreateSnapShot_err env ctx (createSnapShotCalls w) f = None \<longrightarrow>
      CheckPointState_iteration env ctx w =
        time_Sleep (snapshotWriterSleepTime * Second)
          (w\<lparr>writeSnapshotCalls := writeSnapshotCalls w + 1,
             createSnapShotCalls := createSnapShotCalls w @ [f],
             snapshotRows := snapshotRows w @ [f]\<rparr>))
   \<and> (\<not> IsEmpty w
        \<and> snd (WriteSnapshot env snapShotVersion (writeSnapshotCalls w) (snapshot w)) \<noteq> None \<longrightarrow>
      CheckPointCreationErrCounter (metrics (CheckPointState_iteration env ctx w))
        = CheckPointCreationErrCounter (metrics w) + 1)
   \<and> (\<not> IsEmpty w
        \<and> CreateSnapShot_err env ctx (createSnapShotCalls w)
             (fst (WriteSnapshot env snapShotVersion (writeSnapshotCalls w) (snapshot w))) \<noteq> None \<longrightarrow>
      CheckPointSaveErrCounter (metrics (CheckPointState_iteration env ctx w))
        = CheckPointSaveErrCounter (metrics w) + 1)
   \<and> sleeps (CheckPointState_iteration env ctx w) = sleeps w @ [30 * Second]
   \<and> CheckPointState (Suc n) env ctx w
       = CheckPointState n env ctx (CheckPointState_iteration env ctx w)
   \<and> (\<exists>w'. CheckPointState n env ctx w = OutOfFuel w'
          \<and> sleeps w' = sleeps w @ replicate n (30 * Second)
          \<and> snapshot w' = snapshot w
          \<and> (IsEmpty w \<longrightarrow> w' = w\<lparr>sleeps := sleeps w @ replicate n (30 * Second)\<rparr>)
          \<and> (\<not> IsEmpty w \<longrightarrow>
                writeSnapshotCalls w' = writeSnapshotCalls w + n
                \<and> length (createSnapShotCalls w') = length (createSnapShotCalls w) + n)
          \<and> (\<not> IsEmpty w \<and> (\<forall>m tbl. snd (WriteSnapshot env snapShotVersion m tbl) \<noteq> None) \<longrightarrow>
                CheckPointCreationErrCounter (metrics w')
                  = CheckPointCreationErrCounter (metrics w) + n)
          \<and> (\<not> IsEmpty w \<and> (\<forall>h b. CreateSnapShot_err env ctx h b \<noteq> None) \<longrightarrow>
                CheckPointSaveErrCounter (metrics w') = CheckPointSaveErrCounter (metrics w) + n
                \<and> snapshotRows w' = snapshotRows w))"
proof -
  let ?w' = "(CheckPointState_iteration env ctx ^^ n) w"
  have one: "(IsEmpty w \<longrightarrow>
      CheckPointState_iteration env ctx w = time_Sleep (snapshotWriterSleepTime * Second) w)
   \<and> (\<not> IsEmpty w
        \<and> WriteSnapshot env snapShotVersion (writeSnapshotCalls w) (snapshot w) = (f, None)
        \<and> CreateSnapShot_err env ctx (createSnapShotCalls w) f = None \<longrightarrow>
      CheckPointState_iteration env ctx w =
        time_Sleep (snapshotWriterSleepTime * Second)
          (w\<lparr>writeSnapshotCalls := writeSnapshotCalls w + 1,
             createSnapShotCalls := createSnapShotCalls w @ [f],
             snapshotRows := snapshotRows w @ [f]\<rparr>))
   \<and> (\<not> IsEmpty w
        \<and> snd (WriteSnapshot env snapShotVersion (writeSnapshotCalls w) (snapshot w)) \<noteq> None \<longrightarrow>
      CheckPointCreationErrCounter (metrics (CheckPointState_iteration env ctx w))
        = CheckPointCreationErrCounter (metrics w) + 1)
   \<and> (\<not> IsEmpty w
        \<and> CreateSnapShot_err env ctx (createSnapShotCalls w)
             (fst (WriteSnapshot env snapShotVersion (writeSnapshotCalls w) (snapshot w))) \<noteq> None \<longrightarrow>
      CheckPointSaveErrCounter (metrics (CheckPointState_iteration env ctx w))
        = CheckPointSaveErrCounter (metrics w) + 1)
   \<and> sleeps (CheckPointState_iteration env ctx w) = sleeps w @ [30 * Second]"
    by (auto simp: CheckPointState_iteration_def CreateSnapShot_def time_Sleep_def Let_def
          snapshotWriterSleepTime_def split: prod.split option.split)
  have next_pass: "CheckPointState (Suc n) env ctx w
       = CheckPointState n env ctx (CheckPointState_iteration env ctx w)"
    by simp
  have run: "CheckPointState n env ctx w = OutOfFuel ?w'"
    by (rule CheckPointState_passes)
  have slept: "sleeps ?w' = sleeps w @ replicate n (30 * Second)"
    by (rule CheckPointState_iteration_sleeps)
  have table: "snapshot ?w' = snapshot w"
    by (rule CheckPointState_iteration_snapshot)
  have empty: "IsEmpty w \<longrightarrow> ?w' = w\<lparr>sleeps := sleeps w @ replicate n (30 * Second)\<rparr>"
    by (simp add: CheckPointState_iteration_empty)
  have calls: "\<not> IsEmpty w \<longrightarrow>
                writeSnapshotCalls ?w' = writeSnapshotCalls w + n
                \<and> length (createSnapShotCalls ?w') = length (createSnapShotCalls w) + n"
    using CheckPointState_iteration_calls [where w = w and env = env and ctx = ctx and n = n]
    by blast
  have enc: "\<not> IsEmpty w \<and> (\<forall>m tbl. snd (WriteSnapshot env snapShotVersion m tbl) \<noteq> None) \<longrightarrow>
                CheckPointCreationErrCounter (metrics ?w')
                  = CheckPointCreationErrCounter (metrics w) + n"
    using CheckPointState_iteration_counts [where w = w and env = env and ctx = ctx and n = n]
    by blast
  have sav: "\<not> IsEmpty w \<and> (\<forall>h b. CreateSnapShot_err env ctx h b \<noteq> None) \<longrightarrow>
                CheckPointSaveErrCounter (metrics ?w') = CheckPointSaveErrCounter (metrics w) + n
                \<and> snapshotRows ?w' = snapshotRows w"
    using CheckPointState_iteration_counts [where w = w and env = env and ctx = ctx and n = n]
      CheckPointState_iteration_rows [where w = w and env = env and ctx = ctx and n = n]
    by blast
  from run slept table empty calls enc sav
  have loop: "\<exists>w'. CheckPointState n env ctx w = OutOfFuel w'
          \<and> sleeps w' = sleeps w @ replicate n (30 * Second)
          \<and> snapshot w' = snapshot w
          \<and> (IsEmpty w \<longrightarrow> w' = w\<lparr>sleeps := sleeps w @ replicate n (30 * Second)\<rparr>)
          \<and> (\<not> IsEmpty w \<longrightarrow>
                writeSnapshotCalls w' = writeSnapshotCalls w + n
                \<and> length (createSnapShotCalls w') = length (createSnapShotCalls w) + n)
          \<and> (\<not> IsEmpty w \<and> (\<forall>m tbl. snd (WriteSnapshot env snapShotVersion m tbl) \<noteq> None) \<longrightarrow>
                CheckPointCreationErrCounter (metrics w')
                  = CheckPointCreationErrCounter (metrics w) + n)
          \<and> (\<not> IsEmpty w \<and> (\<forall>h b. CreateSnapShot_err env ctx h b \<noteq> None) \<longrightarrow>
                CheckPointSaveErrCounter (metrics w') = CheckPointSaveErrCounter (metrics w) + n
                \<and> snapshotRows w' = snapshotRows w)"
    by (intro exI [of _ ?w'] conjI)
  from one next_pass loop show ?thesis
    by (intro conjI) blast+
qed

text \<open>
  A pass and three passes over the empty table of a cold start, a pass over the table of a
  warm start, and three passes with a failing encoder and with a failing database.
\<close>

theorem checkpoint_iteration_witness:
  "IsEmpty w_boot
   \<and> CheckPointState_iteration env_ok Background w_boot
       = time_Sleep (snapshotWriterSleepTime * Second) w_boot
   \<and> CheckPointState 3 env_ok Background w_boot
       = OutOfFuel (w_boot\<lparr>sleeps := [30 * Second, 30 * Second, 30 * Second]\<rparr>)
   \<and> \<not> IsEmpty w_warm
   \<and> snapshotRows (CheckPointState_iteration env_ok Background w_warm) = [[1, 1]]
   \<and> (\<exists>w'. CheckPointState 3 env_encode_fails Background w_warm = OutOfFuel w'
          \<and> CheckPointCreationErrCounter (metrics w') = 3
          \<and> length (createSnapShotCalls w') = 3
          \<and> sleeps w' = [30 * Second, 30 * Second, 30 * Second])
   \<and> (\<exists>w'. CheckPointState 3 env_db_down Background w_warm = OutOfFuel w'
          \<and> CheckPointSaveErrCounter (metrics w') = 3
          \<and> writeSnapshotCalls w' = 3
          \<and> snapshotRows w' = [])"
proof -
  have e: "IsEmpty w_boot"
    by (simp add: IsEmpty_def w_boot_def NewWorkflowExecutor_def readSnapShot_def env_ok_def)
  have ne: "\<not> IsEmpty w_warm"
    by (simp add: IsEmpty_def w_warm_def)
  have boot: "sleeps w_boot = []"
    by (simp add: w_boot_def NewWorkflowExecutor_def)
  have start: "CheckPointCreationErrCounter (metrics w_warm) = 0
      \<and> CheckPointSaveErrCounter (metrics w_warm) = 0 \<and> snapshotRows w_warm = []
      \<and> createSnapShotCalls w_warm = [] \<and> writeSnapshotCalls w_warm = 0 \<and> sleeps w_warm = []"
    by (simp add: w_warm_def w_boot_def NewWorkflowExecutor_def)
  have three: "replicate 3 x = [x, x, x]" for x :: Duration
    by (simp add: numeral_3_eq_3)
  have enc: "WriteSnapshot env_ok snapShotVersion (writeSnapshotCalls w_warm) (snapshot w_warm)
               = ([1, 1], None)"
    by (simp add: env_ok_def snapShotVersion_def)
  have sav: "CreateSnapShot_err env_ok Background (createSnapShotCalls w_warm) [1, 1] = None"
    by (simp add: env_ok_def)
  have encf: "\<forall>m tbl. snd (WriteSnapshot env_encode_fails snapShotVersion m tbl) \<noteq> None"
    by (simp add: env_encode_fails_def)
  have savf: "\<forall>h b. CreateSnapShot_err env_db_down Background h b \<noteq> None"
    by (simp add: env_db_down_def)
  note cold = checkpoint_iteration [where w = w_boot and env = env_ok and ctx = Background
      and n = 3 and f = "[]"]
  from cold have "IsEmpty w_boot \<longrightarrow>
      CheckPointState_iteration env_ok Background w_boot
        = time_Sleep (snapshotWriterSleepTime * Second) w_boot"
    by (elim conjE)
  with e have 1: "CheckPointState_iteration env_ok Background w_boot
       = time_Sleep (snapshotWriterSleepTime * Second) w_boot"
    by simp
  from cold obtain w0 where "CheckPointState 3 env_ok Background w_boot = OutOfFuel w0"
    and "IsEmpty w_boot \<longrightarrow> w0 = w_boot\<lparr>sleeps := sleeps w_boot @ replicate 3 (30 * Second)\<rparr>"
    by (elim conjE exE)
  with e boot have 2: "CheckPointState 3 env_ok Background w_boot
       = OutOfFuel (w_boot\<lparr>sleeps := [30 * Second, 30 * Second, 30 * Second]\<rparr>)"
    by (simp add: three)
  note warm = checkpoint_iteration [where w = w_warm and env = env_ok and ctx = Background
      and f = "[1, 1]" and n = 1]
  from warm have "\<not> IsEmpty w_warm
        \<and> WriteSnapshot env_ok snapShotVersion (writeSnapshotCalls w_warm) (snapshot w_warm)
            = ([1, 1], None)
        \<and> CreateSnapShot_err env_ok Background (createSnapShotCalls w_warm) [1, 1] = None \<longrightarrow>
      CheckPointState_iteration env_ok Background w_warm =
        time_Sleep (snapshotWriterSleepTime * Second)
          (w_warm\<lparr>writeSnapshotCalls := writeSnapshotCalls w_warm + 1,
             createSnapShotCalls := createSnapShotCalls w_warm @ [[1, 1]],
             snapshotRows := snapshotRows w_warm @ [[1, 1]]\<rparr>)"
    by (elim conjE)
  with ne enc sav have "CheckPointState_iteration env_ok Background w_warm =
        time_Sleep (snapshotWriterSleepTime * Second)
          (w_warm\<lparr>writeSnapshotCalls := writeSnapshotCalls w_warm + 1,
             createSnapShotCalls := createSnapShotCalls w_warm @ [[1, 1]],
             snapshotRows := snapshotRows w_warm @ [[1, 1]]\<rparr>)"
    by blast
  with start have 3: "snapshotRows (CheckPointState_iteration env_ok Background w_warm) = [[1, 1]]"
    by (simp add: time_Sleep_def)
  note failing = checkpoint_iteration [where w = w_warm and env = env_encode_fails
      and ctx = Background and n = 3 and f = "[]"]
  from failing obtain w1 where r1: "CheckPointState 3 env_encode_fails Background w_warm = OutOfFuel w1"
    and s1: "sleeps w1 = sleeps w_warm @ replicate 3 (30 * Second)"
    and c1: "\<not> IsEmpty w_warm \<longrightarrow>
                writeSnapshotCalls w1 = writeSnapshotCalls w_warm + 3
                \<and> length (createSnapShotCalls w1) = length (createSnapShotCalls w_warm) + 3"
    and m1: "\<not> IsEmpty w_warm
              \<and> (\<forall>m tbl. snd (WriteSnapshot env_encode_fails snapShotVersion m tbl) \<noteq> None) \<longrightarrow>
                CheckPointCreationErrCounter (metrics w1)
                  = CheckPointCreationErrCounter (metrics w_warm) + 3"
    by (elim conjE exE)
  from m1 ne encf have "CheckPointCreationErrCounter (metrics w1)
                  = CheckPointCreationErrCounter (metrics w_warm) + 3"
    by blast
  with r1 s1 c1 ne start have 4: "\<exists>w'. CheckPointState 3 env_encode_fails Background w_warm = OutOfFuel w'
          \<and> CheckPointCreationErrCounter (metrics w') = 3
          \<and> length (createSnapShotCalls w') = 3
          \<and> sleeps w' = [30 * Second, 30 * Second, 30 * Second]"
    by (simp add: three)
  note refusing = checkpoint_iteration [where w = w_warm and env = env_db_down
      and ctx = Background and n = 3 and f = "[]"]
  from refusing obtain w2 where r2: "CheckPointState 3 env_db_down Background w_warm = OutOfFuel w2"
    and c2: "\<not> IsEmpty w_warm \<longrightarrow>
                writeSnapshotCalls w2 = writeSnapshotCalls w_warm + 3
                \<and> length (createSnapShotCalls w2) = length (createSnapShotCalls w_warm) + 3"
    and m2: "\<not> IsEmpty w_warm
              \<and> (\<forall>h b. CreateSnapShot_err env_db_down Background h b \<noteq> None) \<longrightarrow>
                CheckPointSaveErrCounter (metrics w2) = CheckPointSaveErrCounter (metrics w_warm) + 3
                \<and> snapshotRows w2 = snapshotRows w_warm"
    by (elim conjE exE)
  from m2 ne savf have "CheckPointSaveErrCounter (metrics w2) = CheckPointSaveErrCounter (metrics w_warm) + 3
                \<and> snapshotRows w2 = snapshotRows w_warm"
    by blast
  with r2 c2 ne start have 5: "\<exists>w'. CheckPointState 3 env_db_down Background w_warm = OutOfFuel w'
          \<and> CheckPointSaveErrCounter (metrics w') = 3
          \<and> writeSnapshotCalls w' = 3
          \<and> snapshotRows w' = []"
    by simp
  from e ne 1 2 3 4 5 show ?thesis
    by (intro conjI)
qed

subsection \<open>C8: cancellation of the context\<close>

text \<open>
  C8 says that \<^verbatim>\<open>Run\<close> returns once its context is cancelled. The loop of \<^verbatim>\<open>Run\<close> never looks
  at the context: with a context that is cancelled from the start and collaborators that
  never fail, \<^verbatim>\<open>Run\<close> does not return.
\<close>

theorem Run_ignores_cancellation_counterexample:
  "Done cancelled \<and> Run env_ok cancelled w_boot = None"
proof -
  have "fst (CatchUpAllSchedules env_ok [sA, sB] (clock 11 15)
               (w_boot\<lparr>getAllCalls := getAllCalls w_boot + 1\<rparr>)) = None"
    by code_simp
  then obtain w2 where
    "CatchUpAllSchedules env_ok [sA, sB] (clock 11 15)
       (w_boot\<lparr>getAllCalls := getAllCalls w_boot + 1\<rparr>) = (None, w2)"
    by (cases "CatchUpAllSchedules env_ok [sA, sB] (clock 11 15)
       (w_boot\<lparr>getAllCalls := getAllCalls w_boot + 1\<rparr>)") simp
  moreover have "GetAll env_ok cancelled (getAllCalls w_boot) = ([sA, sB], None)"
    and "Now env_ok (w_boot\<lparr>getAllCalls := getAllCalls w_boot + 1\<rparr>) = clock 11 15"
    by (simp_all add: env_ok_def)
  ultimately have "Run env_ok cancelled w_boot = None"
    by (simp only: Run_after_boot)
  then show ?thesis
    by (simp add: cancelled_def)
qed

text \<open>
  C8, amended: the control loop has no exit, so it never returns, for any context; \<^verbatim>\<open>Run\<close>
  returns only with an error, from the first read of the schedules or from catch-up, and
  does not return once both have succeeded.
\<close>

theorem Run_returns_only_boot_errors:
  "Run_loop env ctx sw = None
   \<and> Run env ctx w =
       (case GetAll env ctx (getAllCalls w) of
          (schedules, Some err) \<Rightarrow>
            Some (Some (Errorf
              ''unable to run the workflow executor after reading the schedules due to '' err),
              w\<lparr>getAllCalls := getAllCalls w + 1\<rparr>)
        | (schedules, None) \<Rightarrow>
            (case CatchUpAllSchedules env schedules
                    (Now env (w\<lparr>getAllCalls := getAllCalls w + 1\<rparr>))
                    (w\<lparr>getAllCalls := getAllCalls w + 1\<rparr>) of
               (Some err, w2) \<Rightarrow>
                 Some (Some (Errorf ''unable to catch up on the schedules due to '' err), w2)
             | (None, w2) \<Rightarrow> None))"
  by (simp add: Run_def Let_def Run_loop_never_returns split: prod.split option.split)

subsection \<open>C9: reading the snapshot at boot\<close>

text \<open>
  C9: \<^verbatim>\<open>readSnapShot\<close> gives the empty table when the latest row cannot be read, when the
  decoder returns an error, and when a decoder after the specification meets a version
  other than its own. The new executor starts from the table \<^verbatim>\<open>readSnapShot\<close> gives; neither
  function has an error result.
\<close>

theorem readSnapShot_falls_back_to_empty:
  "(GetLatestSnapShot env ctx rows = Inl err \<longrightarrow> readSnapShot env ctx rows version = Map.empty)
   \<and> (GetLatestSnapShot env ctx rows = Inr blob \<and> ReadSnapshot env version blob = Inl err \<longrightarrow>
        readSnapShot env ctx rows version = Map.empty)
   \<and> (GetLatestSnapShot env ctx rows = Inr blob
        \<and> ReadSnapshot env = VersionedSnapshot_ReadSnapshot decodeHeader decodeTable
        \<and> decodeHeader blob = Inr (v, rest) \<and> v \<noteq> version \<longrightarrow>
        readSnapShot env ctx rows version = Map.empty)
   \<and> snapshot (NewWorkflowExecutor env rows) = readSnapShot env Background rows snapShotVersion"
  by (auto simp: readSnapShot_def VersionedSnapshot_ReadSnapshot_def NewWorkflowExecutor_def)

text \<open>
  An empty snapshot table, a blob that cannot be decoded, and a blob of version 2 read by a
  decoder of version 1; a blob of version 1 gives its table.
\<close>

theorem readSnapShot_falls_back_to_empty_witness:
  "GetLatestSnapShot env_ok Background [] = Inl (PlainError ''record not found'')
   \<and> readSnapShot env_ok Background [] snapShotVersion = Map.empty
   \<and> ReadSnapshot env_undecodable snapShotVersion [1, 2, 3] = Inl (PlainError ''unexpected EOF'')
   \<and> readSnapShot env_undecodable Background [[1, 2, 3]] snapShotVersion = Map.empty
   \<and> readSnapShot env_versioned Background [[2, 7]] snapShotVersion = Map.empty
   \<and> IsEmpty (NewWorkflowExecutor env_versioned [[2, 7]])
   \<and> readSnapShot env_versioned Background [[1, 7]] snapShotVersion ''p:d:A:v1''
       = Some (clock 10 0)"
proof -
  let ?dh = "\<lambda>b :: 8 word list.
     case b of [] \<Rightarrow> Inl (PlainError ''EOF'') | v # rest \<Rightarrow> Inr (uint v, rest)"
  let ?dt = "\<lambda>rest :: 8 word list.
     (Inr [''p:d:A:v1'' \<mapsto> clock 10 0] :: error + (string \<rightharpoonup> instant))"
  have a: "GetLatestSnapShot env_ok Background [] = Inl (PlainError ''record not found'')"
    by (simp add: env_ok_def)
  have b: "GetLatestSnapShot env_undecodable Background [[1, 2, 3]] = Inr [1, 2, 3]
      \<and> ReadSnapshot env_undecodable snapShotVersion [1, 2, 3] = Inl (PlainError ''unexpected EOF'')"
    by (simp add: env_undecodable_def env_ok_def)
  have c: "GetLatestSnapShot env_versioned Background [[2, 7]] = Inr [2, 7]
      \<and> ReadSnapshot env_versioned = VersionedSnapshot_ReadSnapshot ?dh ?dt
      \<and> ?dh [2, 7] = Inr (2, [7]) \<and> (2 :: int) \<noteq> snapShotVersion"
    by (simp add: env_versioned_def env_ok_def snapShotVersion_def)
  from readSnapShot_falls_back_to_empty [where env = env_ok and ctx = Background
      and rows = "[]" and err = "PlainError ''record not found''" and version = snapShotVersion] a
  have 1: "readSnapShot env_ok Background [] snapShotVersion = Map.empty"
    by blast
  from readSnapShot_falls_back_to_empty [where env = env_undecodable and ctx = Background
      and rows = "[[1, 2, 3]]" and blob = "[1, 2, 3]" and err = "PlainError ''unexpected EOF''"
      and version = snapShotVersion] b
  have 2: "readSnapShot env_undecodable Background [[1, 2, 3]] snapShotVersion = Map.empty"
    by blast
  from readSnapShot_falls_back_to_empty [where env = env_versioned and ctx = Background
      and rows = "[[2, 7]]" and blob = "[2, 7]" and version = snapShotVersion
      and decodeHeader = ?dh and decodeTable = ?dt and v = 2 and rest = "[7]"] c
  have 3: "readSnapShot env_versioned Background [[2, 7]] snapShotVersion = Map.empty
      \<and> snapshot (NewWorkflowExecutor env_versioned [[2, 7]])
          = readSnapShot env_versioned Background [[2, 7]] snapShotVersion"
    by blast
  have 4: "readSnapShot env_versioned Background [[1, 7]] snapShotVersion ''p:d:A:v1''
       = Some (clock 10 0)"
    by (simp add: readSnapShot_def env_versioned_def env_ok_def VersionedSnapshot_ReadSnapshot_def
          snapShotVersion_def)
  from a b 1 2 3 4 show ?thesis
    by (simp add: IsEmpty_def)
qed

subsection \<open>C10: an encoder error does not skip the save\<close>

text \<open>
  C10: when the encoder fails on a non-empty table, the pass still hands the bytes left in
  the buffer to \<^verbatim>\<open>CreateSnapShot\<close>, after counting the encoder error; if the repository
  accepts them, they are the newest row of the snapshot table.
\<close>

theorem encode_failure_is_persisted:
  assumes "\<not> IsEmpty w"
    and "WriteSnapshot env snapShotVersion (writeSnapshotCalls w) (snapshot w) = (f, Some err)"
  shows "createSnapShotCalls (CheckPointState_iteration env ctx w) = createSnapShotCalls w @ [f]
       \<and> CheckPointCreationErrCounter (metrics (CheckPointState_iteration env ctx w))
           = CheckPointCreationErrCounter (metrics w) + 1
       \<and> (CreateSnapShot_err env ctx (createSnapShotCalls w) f = None \<longrightarrow>
            snapshotRows (CheckPointState_iteration env ctx w) = snapshotRows w @ [f])"
  using assms
  by (auto simp: CheckPointState_iteration_def CreateSnapShot_def time_Sleep_def Let_def
        split: prod.split option.split)

text \<open>The encoder fails after writing nothing: the empty blob becomes the newest row.\<close>

theorem encode_failure_is_persisted_witness:
  "\<not> IsEmpty w_warm
   \<and> WriteSnapshot env_encode_fails snapShotVersion (writeSnapshotCalls w_warm) (snapshot w_warm)
       = ([], Some (PlainError ''gob: encode''))
   \<and> createSnapShotCalls (CheckPointState_iteration env_encode_fails Background w_warm) = [[]]
   \<and> CheckPointCreationErrCounter
        (metrics (CheckPointState_iteration env_encode_fails Background w_warm)) = 1
   \<and> snapshotRows w_warm = []
   \<and> snapshotRows (CheckPointState_iteration env_encode_fails Background w_warm) = [[]]"
proof -
  have ne: "\<not> IsEmpty w_warm"
    by (simp add: IsEmpty_def w_warm_def)
  have enc: "WriteSnapshot env_encode_fails snapShotVersion (writeSnapshotCalls w_warm)
               (snapshot w_warm) = ([], Some (PlainError ''gob: encode''))"
    by (simp add: env_encode_fails_def)
  have sav: "CreateSnapShot_err env_encode_fails Background (createSnapShotCalls w_warm) [] = None"
    by (simp add: env_encode_fails_def env_ok_def)
  have start: "CheckPointCreationErrCounter (metrics w_warm) = 0 \<and> snapshotRows w_warm = []
      \<and> createSnapShotCalls w_warm = []"
    by (simp add: w_warm_def w_boot_def NewWorkflowExecutor_def)
  from encode_failure_is_persisted [OF ne enc, of Background] sav start ne enc
  show ?thesis by simp
qed

end
